theory Spec2Isabelle
  imports Complex_Main "HOL-Library.Sublist" "HOL-Library.AList"
begin

section \<open>Python values and exceptions\<close>

text \<open>
  The module \<^verbatim>\<open>langflow/processing/process.py\<close> works on duck-typed Python objects.
  An exception is a value: its class (as far as an \<^verbatim>\<open>except\<close> clause of the module can
  tell classes apart) and the text \<^verbatim>\<open>str(exc)\<close>. \<^verbatim>\<open>ValueErrorSubclass\<close> stands for
  classes such as \<^verbatim>\<open>json.JSONDecodeError\<close> that an \<^verbatim>\<open>except ValueError\<close> clause also
  catches, \<^verbatim>\<open>OtherException\<close> for the other classes that derive from \<^verbatim>\<open>Exception\<close>,
  and \<^verbatim>\<open>BaseExceptionOnly\<close> for the classes that derive from \<^verbatim>\<open>BaseException\<close> without
  deriving from \<^verbatim>\<open>Exception\<close> (\<^verbatim>\<open>KeyboardInterrupt\<close>, \<^verbatim>\<open>SystemExit\<close>,
  \<^verbatim>\<open>GeneratorExit\<close>), which an \<^verbatim>\<open>except Exception\<close> clause does not catch.
\<close>

datatype exn_class =
    ValueError
  | ValueErrorSubclass string
  | TypeError
  | AttributeError
  | KeyError
  | IndexError
  | OtherException string
  | BaseExceptionOnly string

datatype exn = Exn (exn_cls: exn_class) (exn_str: string)

fun is_ValueError :: "exn \<Rightarrow> bool" where
  "is_ValueError (Exn ValueError _) = True"
| "is_ValueError (Exn (ValueErrorSubclass _) _) = True"
| "is_ValueError (Exn _ _) = False"

fun is_Exception :: "exn \<Rightarrow> bool" where
  "is_Exception (Exn (BaseExceptionOnly _) _) = False"
| "is_Exception (Exn _ _) = True"

text \<open>\<^verbatim>\<open>sub in s\<close> on two Python strings: \<open>sub\<close> occurs in \<open>s\<close> as a contiguous run.\<close>

fun str_in :: "string \<Rightarrow> string \<Rightarrow> bool" where
  "str_in sub [] = (sub = [])"
| "str_in sub (c # cs) = (prefix sub (c # cs) \<or> str_in sub cs)"

text \<open>\<^verbatim>\<open>sep.join(lines)\<close>.\<close>

fun join :: "string \<Rightarrow> string list \<Rightarrow> string" where
  "join sep [] = []"
| "join sep [x] = x"
| "join sep (x # y # ys) = x @ sep @ join sep (y # ys)"

definition newline :: string where
  "newline = [CHR 0x0A]"


section \<open>format_actions\<close>

text \<open>
  \<^verbatim>\<open>AgentAction\<close> of langchain: the fields the module reads. \<open>tool_input\<close> holds the text
  that the f-string \<^verbatim>\<open>f"{tool_input}"\<close> produces (the string itself, or the printed form
  of a dict).
\<close>

record AgentAction =
  tool :: string
  tool_input :: string
  log :: string

text \<open>
  The body of the \<^verbatim>\<open>for action, answer in actions\<close> loop, with the list \<^verbatim>\<open>output\<close> that
  it appends to passed along.
\<close>

fun format_actions_loop :: "(AgentAction \<times> string) list \<Rightarrow> string list \<Rightarrow> string list" where
  "format_actions_loop [] output = output"
| "format_actions_loop ((action, answer) # rest) output =
     (let output1 = output @ [''Log: '' @ log action];
          output2 = (if \<not> str_in ''Action'' (log action) \<and> \<not> str_in ''Action Input'' (log action)
                     then (output1 @ [''Tool: '' @ tool action]) @ [''Tool Input: '' @ tool_input action]
                     else output1);
          output3 = output2 @ [''Answer: '' @ answer];
          output4 = output3 @ ['''']
      in format_actions_loop rest output4)"

definition format_actions :: "(AgentAction \<times> string) list \<Rightarrow> string" where
  "format_actions actions = join newline (format_actions_loop actions [])"

text \<open>
  The trace as section 4.5 of the specification words it: the lines of one
  (action, observation) pair, and the whole trace as the lines of all pairs in order.
\<close>

definition mentions_marker :: "string \<Rightarrow> bool" where
  "mentions_marker l = (str_in ''Action'' l \<or> str_in ''Action Input'' l)"

definition trace_block :: "AgentAction \<times> string \<Rightarrow> string list" where
  "trace_block p =
     [''Log: '' @ log (fst p)]
     @ (if mentions_marker (log (fst p)) then []
        else [''Tool: '' @ tool (fst p), ''Tool Input: '' @ tool_input (fst p)])
     @ [''Answer: '' @ snd p, '''']"

definition trace_lines :: "(AgentAction \<times> string) list \<Rightarrow> string list" where
  "trace_lines steps = concat (map trace_block steps)"


section \<open>Graph descriptions and tweaks\<close>

text \<open>
  What \<^verbatim>\<open>json.load\<close> produces, and what a caller passes as \<^verbatim>\<open>graph_data\<close> and
  \<^verbatim>\<open>tweaks\<close>: \<^verbatim>\<open>None\<close>, booleans, integers, finite floats (by their value), strings,
  lists and dicts. A dict is the list of its items in insertion order; a lookup finds the
  first item of a key and a store replaces it in place, or appends a new item. A value is
  a tree: no two places of it hold the same list or dict object, as in everything that
  \<^verbatim>\<open>json.load\<close> returns. The mutation of an object in place is then the replacement of
  the value at the one place where the object is.
\<close>

datatype json =
    JNull
  | JBool bool
  | JInt int
  | JFloat real
  | JStr string
  | JArr "json list"
  | JObj "(string \<times> json) list"

text \<open>Python truthiness, as \<^verbatim>\<open>if x\<close>, \<^verbatim>\<open>x and y\<close> and \<^verbatim>\<open>x or y\<close> test it.\<close>

fun truthy :: "json \<Rightarrow> bool" where
  "truthy JNull = False"
| "truthy (JBool b) = b"
| "truthy (JInt i) = (i \<noteq> 0)"
| "truthy (JFloat r) = (r \<noteq> 0)"
| "truthy (JStr s) = (s \<noteq> [])"
| "truthy (JArr xs) = (xs \<noteq> [])"
| "truthy (JObj kvs) = (kvs \<noteq> [])"

fun type_name :: "json \<Rightarrow> string" where
  "type_name JNull = ''NoneType''"
| "type_name (JBool _) = ''bool''"
| "type_name (JInt _) = ''int''"
| "type_name (JFloat _) = ''float''"
| "type_name (JStr _) = ''str''"
| "type_name (JArr _) = ''list''"
| "type_name (JObj _) = ''dict''"

definition quoted :: "string \<Rightarrow> string" where
  "quoted s = [CHR 0x27] @ s @ [CHR 0x27]"

definition no_attribute :: "string \<Rightarrow> string \<Rightarrow> exn" where
  "no_attribute ty attr =
     Exn AttributeError (quoted ty @ '' object has no attribute '' @ quoted attr)"

text \<open>\<^verbatim>\<open>x.get(key, default)\<close>: only a dict has the method.\<close>

fun py_get :: "json \<Rightarrow> string \<Rightarrow> json \<Rightarrow> exn + json" where
  "py_get (JObj kvs) key dflt = Inr (case map_of kvs key of None \<Rightarrow> dflt | Some v \<Rightarrow> v)"
| "py_get x key dflt = Inl (no_attribute (type_name x) ''get'')"

text \<open>\<^verbatim>\<open>x[key]\<close> with a string key.\<close>

fun subscript :: "json \<Rightarrow> string \<Rightarrow> exn + json" where
  "subscript (JObj kvs) key =
     (case map_of kvs key of None \<Rightarrow> Inl (Exn KeyError (quoted key)) | Some v \<Rightarrow> Inr v)"
| "subscript (JArr _) key = Inl (Exn TypeError ''list indices must be integers or slices, not str'')"
| "subscript (JStr _) key = Inl (Exn TypeError ''string indices must be integers'')"
| "subscript x key = Inl (Exn TypeError (quoted (type_name x) @ '' object is not subscriptable''))"

text \<open>\<^verbatim>\<open>x["value"] = v\<close>: the item assignment of \<^verbatim>\<open>apply_tweaks\<close>.\<close>

fun set_value :: "json \<Rightarrow> json \<Rightarrow> exn + json" where
  "set_value (JObj kvs) v = Inr (JObj (AList.update ''value'' v kvs))"
| "set_value (JArr _) v = Inl (Exn TypeError ''list indices must be integers or slices, not str'')"
| "set_value x v =
     Inl (Exn TypeError (quoted (type_name x) @ '' object does not support item assignment''))"

text \<open>
  \<^verbatim>\<open>validate_input\<close> returns the list object \<^verbatim>\<open>nodes\<close>, which stays part of
  \<^verbatim>\<open>graph_data\<close>: the nodes are mutated through it. The model returns the list together
  with the place it was read from, so that \<^verbatim>\<open>process_tweaks\<close> can store the mutated
  nodes back there.
\<close>

datatype nodes_place = UnderData | UnderNodes

definition validate_input :: "json \<Rightarrow> json \<Rightarrow> exn + (nodes_place \<times> json list)" where
  "validate_input graph_data tweaks =
     (case (graph_data, tweaks) of
        (JObj g, JObj t) \<Rightarrow>
          (case py_get graph_data ''data'' (JObj []) of
             Inl e \<Rightarrow> Inl e
           | Inr data \<Rightarrow>
               (case py_get data ''nodes'' JNull of
                  Inl e \<Rightarrow> Inl e
                | Inr data_nodes \<Rightarrow>
                    (let (place, nodes) =
                           (if truthy data_nodes then (UnderData, data_nodes)
                            else (UnderNodes, (case map_of g ''nodes'' of None \<Rightarrow> JNull | Some v \<Rightarrow> v)))
                     in case nodes of
                          JArr ns \<Rightarrow> Inr (place, ns)
                        | _ \<Rightarrow> Inl (Exn ValueError
                            (''graph_data should contain a list of nodes under '' @ quoted ''data''
                             @ '' key or directly under '' @ quoted ''nodes'' @ '' key'')))))
      | _ \<Rightarrow> Inl (Exn ValueError ''graph_data and tweaks should be dictionaries''))"

text \<open>
  The loop \<^verbatim>\<open>for tweak_name, tweak_value in node_tweaks.items()\<close> over the items of the
  tweak dict, with the dict \<^verbatim>\<open>template_data\<close> that it mutates passed along.
\<close>

fun apply_tweaks_loop ::
  "(string \<times> json) list \<Rightarrow> (string \<times> json) list \<Rightarrow> exn + (string \<times> json) list" where
  "apply_tweaks_loop [] template_data = Inr template_data"
| "apply_tweaks_loop ((tweak_name, tweak_value) # rest) template_data =
     (if tweak_name \<noteq> [] \<and> truthy tweak_value \<and> map_of template_data tweak_name \<noteq> None
      then (case subscript (JObj template_data) tweak_name of
              Inl e \<Rightarrow> Inl e
            | Inr entry \<Rightarrow>
                (case set_value entry tweak_value of
                   Inl e \<Rightarrow> Inl e
                 | Inr entry' \<Rightarrow>
                     apply_tweaks_loop rest (AList.update tweak_name entry' template_data)))
      else apply_tweaks_loop rest template_data)"

text \<open>
  \<^verbatim>\<open>apply_tweaks(node, node_tweaks)\<close> on a node that is a dict, given by its items. The
  template is reached through \<^verbatim>\<open>node["data"]["node"]["template"]\<close>; the model stores the
  mutated template back along that path. The warning for a template that is not a dict
  goes to the logger, which is not modelled.
\<close>

definition store_template :: "(string \<times> json) list \<Rightarrow> (string \<times> json) list \<Rightarrow> (string \<times> json) list" where
  "store_template node template_data =
     (case map_of node ''data'' of
        Some (JObj d) \<Rightarrow>
          (case map_of d ''node'' of
             Some (JObj n) \<Rightarrow>
               AList.update ''data''
                 (JObj (AList.update ''node''
                    (JObj (AList.update ''template'' (JObj template_data) n)) d)) node
           | _ \<Rightarrow> node)
      | _ \<Rightarrow> node)"

definition apply_tweaks :: "(string \<times> json) list \<Rightarrow> json \<Rightarrow> exn + (string \<times> json) list" where
  "apply_tweaks node node_tweaks =
     (case py_get (JObj node) ''data'' (JObj []) of
        Inl e \<Rightarrow> Inl e
      | Inr d \<Rightarrow>
          (case py_get d ''node'' (JObj []) of
             Inl e \<Rightarrow> Inl e
           | Inr n \<Rightarrow>
               (case py_get n ''template'' JNull of
                  Inl e \<Rightarrow> Inl e
                | Inr (JObj template_data) \<Rightarrow>
                    (case node_tweaks of
                       JObj items \<Rightarrow>
                         (case apply_tweaks_loop items template_data of
                            Inl e \<Rightarrow> Inl e
                          | Inr template_data' \<Rightarrow> Inr (store_template node template_data'))
                     | _ \<Rightarrow> Inl (no_attribute (type_name node_tweaks) ''items''))
                | Inr _ \<Rightarrow> Inr node)))"

text \<open>One round of the loop \<^verbatim>\<open>for node in nodes\<close> of \<^verbatim>\<open>process_tweaks\<close>.\<close>

definition tweak_node :: "(string \<times> json) list \<Rightarrow> json \<Rightarrow> exn + json" where
  "tweak_node tweaks node =
     (case node of
        JObj n \<Rightarrow>
          (case map_of n ''id'' of
             Some (JStr node_id) \<Rightarrow>
               (let node_tweaks = (case map_of tweaks node_id of None \<Rightarrow> JNull | Some v \<Rightarrow> v)
                in if truthy node_tweaks
                   then (case apply_tweaks n node_tweaks of Inl e \<Rightarrow> Inl e | Inr n' \<Rightarrow> Inr (JObj n'))
                   else Inr node)
           | _ \<Rightarrow> Inr node)
      | _ \<Rightarrow> Inr node)"

fun tweak_nodes :: "(string \<times> json) list \<Rightarrow> json list \<Rightarrow> exn + json list" where
  "tweak_nodes tweaks [] = Inr []"
| "tweak_nodes tweaks (node # rest) =
     (case tweak_node tweaks node of
        Inl e \<Rightarrow> Inl e
      | Inr node' \<Rightarrow>
          (case tweak_nodes tweaks rest of Inl e \<Rightarrow> Inl e | Inr rest' \<Rightarrow> Inr (node' # rest')))"

definition store_nodes :: "nodes_place \<Rightarrow> json list \<Rightarrow> (string \<times> json) list \<Rightarrow> (string \<times> json) list" where
  "store_nodes place ns g =
     (case place of
        UnderNodes \<Rightarrow> AList.update ''nodes'' (JArr ns) g
      | UnderData \<Rightarrow>
          (case map_of g ''data'' of
             Some (JObj d) \<Rightarrow> AList.update ''data'' (JObj (AList.update ''nodes'' (JArr ns) d)) g
           | _ \<Rightarrow> g))"

text \<open>
  \<^verbatim>\<open>process_tweaks\<close> returns \<^verbatim>\<open>graph_data\<close> itself, whose nodes the loop has mutated.
  Once \<^verbatim>\<open>validate_input\<close> has returned, both arguments are dicts.
\<close>

definition process_tweaks :: "json \<Rightarrow> json \<Rightarrow> exn + json" where
  "process_tweaks graph_data tweaks =
     (case validate_input graph_data tweaks of
        Inl e \<Rightarrow> Inl e
      | Inr (place, nodes) \<Rightarrow>
          (case (graph_data, tweaks) of
             (JObj g, JObj t) \<Rightarrow>
               (case tweak_nodes t nodes of
                  Inl e \<Rightarrow> Inl e
                | Inr nodes' \<Rightarrow> Inr (JObj (store_nodes place nodes' g)))
           | _ \<Rightarrow> Inl (Exn ValueError ''graph_data and tweaks should be dictionaries'')))"


section \<open>Pipeline handles\<close>

text \<open>
  The compiled object is duck-typed: the module asks \<^verbatim>\<open>hasattr\<close> before it reads most
  attributes. A field is \<open>None\<close> when the object has no such attribute. For \<open>memory\<close>,
  \<open>None\<close> also stands for the attribute being present with the value \<^verbatim>\<open>None\<close>: every
  test of the module treats the two alike.
\<close>

record Memory =
  memory_key :: "string option"

record Prompt =
  prompt_input_variables :: "string list option"

record Handle =
  verbose :: "bool option"
  memory :: "Memory option"
  input_variables :: "string list option"
  prompt :: "Prompt option"
  input_keys :: "string list option"
  output_keys :: "string list option"
  return_intermediate_steps :: "bool option"

text \<open>What a pipeline returns: a dict of outputs, or any other value.\<close>

datatype pyval =
    PNone
  | PStr string
  | PSteps "(AgentAction \<times> string) list"
  | PDict "(string \<times> pyval) list"

fun pyval_truthy :: "pyval \<Rightarrow> bool" where
  "pyval_truthy PNone = False"
| "pyval_truthy (PStr s) = (s \<noteq> [])"
| "pyval_truthy (PSteps steps) = (steps \<noteq> [])"
| "pyval_truthy (PDict kvs) = (kvs \<noteq> [])"

text \<open>
  The structured input of lines 63 to 73: \<^verbatim>\<open>None\<close>, a dict with one item, or the message.
\<close>

datatype chat_input =
    NoInput
  | KeyedInput string string
  | PlainInput string

text \<open>
  One invocation of the pipeline: what it returned or raised, what it printed to standard
  output meanwhile, and the state it left the object in.
\<close>

record invocation =
  outcome :: "exn + pyval"
  printed :: string
  after :: Handle

text \<open>
  The behaviour of the object and of the imported helpers, which the module only calls:
  \<open>call_handle\<close> is \<^verbatim>\<open>langchain_object(chat_input)\<close>, \<open>run_handle\<close> is
  \<^verbatim>\<open>langchain_object.run(chat_input)\<close> (raising \<^verbatim>\<open>AttributeError\<close> when there is no such
  method), and \<open>get_memory_key\<close> is the helper of that name from
  \<^verbatim>\<open>langflow.interface.run\<close>, which returns a key or \<^verbatim>\<open>None\<close>.
\<close>

record collaborators =
  call_handle :: "Handle \<Rightarrow> chat_input \<Rightarrow> invocation"
  run_handle :: "Handle \<Rightarrow> chat_input \<Rightarrow> invocation"
  get_memory_key :: "Handle \<Rightarrow> string option"

text \<open>
  Modelled from the spec: \<^verbatim>\<open>update_memory_keys\<close> of \<^verbatim>\<open>langflow.interface.run\<close> is not
  among the sources. Section 4.3, step 4: "If a replacement is found, rewrite the handle's
  memory key to it".
\<close>

definition update_memory_keys :: "Handle \<Rightarrow> string \<Rightarrow> Handle" where
  "update_memory_keys langchain_object possible_new_mem_key =
     langchain_object\<lparr>memory :=
       map_option (\<lambda>m. m\<lparr>memory_key := Some possible_new_mem_key\<rparr>) (memory langchain_object)\<rparr>"


section \<open>fix_memory_inputs\<close>

text \<open>Lines 37 to 39: ask for a replacement key and store it when there is one.\<close>

definition replace_memory_key :: "collaborators \<Rightarrow> Handle \<Rightarrow> Handle" where
  "replace_memory_key c langchain_object =
     (case get_memory_key c langchain_object of
        None \<Rightarrow> langchain_object
      | Some possible_new_mem_key \<Rightarrow> update_memory_keys langchain_object possible_new_mem_key)"

text \<open>
  The right-hand side of the assignment in the \<^verbatim>\<open>except AttributeError\<close> handler
  (lines 29 to 33).
\<close>

definition handler_input_variables :: "Handle \<Rightarrow> exn + string list" where
  "handler_input_variables langchain_object =
     (case prompt langchain_object of
        Some p \<Rightarrow>
          (case prompt_input_variables p of
             Some vs \<Rightarrow> Inr vs
           | None \<Rightarrow> Inl (no_attribute ''Prompt'' ''input_variables''))
      | None \<Rightarrow>
          (case input_keys langchain_object of
             Some ks \<Rightarrow> Inr ks
           | None \<Rightarrow> Inl (no_attribute ''Handle'' ''input_keys'')))"

text \<open>
  \<^verbatim>\<open>fix_memory_inputs\<close> mutates the object; the model returns the object as it is
  afterwards, or the exception that leaves the function. The \<^verbatim>\<open>try\<close> block reads
  \<^verbatim>\<open>memory.memory_key\<close> and then \<^verbatim>\<open>input_variables\<close>; either read can raise
  \<^verbatim>\<open>AttributeError\<close>, and nothing else in the block can raise.
\<close>

definition fix_memory_inputs :: "collaborators \<Rightarrow> Handle \<Rightarrow> exn + Handle" where
  "fix_memory_inputs c langchain_object =
     (case memory langchain_object of
        None \<Rightarrow> Inr langchain_object
      | Some mem \<Rightarrow>
          (case (memory_key mem, input_variables langchain_object) of
             (Some key, Some vs) \<Rightarrow>
               if key \<in> set vs then Inr langchain_object
               else Inr (replace_memory_key c langchain_object)
           | _ \<Rightarrow>
               (case handler_input_variables langchain_object of
                  Inl e \<Rightarrow> Inl e
                | Inr vs \<Rightarrow>
                    (case memory_key mem of
                       None \<Rightarrow> Inl (no_attribute ''Memory'' ''memory_key'')
                     | Some key \<Rightarrow>
                         if key \<in> set vs then Inr langchain_object
                         else Inr (replace_memory_key c langchain_object)))))"


section \<open>get_result_and_thought\<close>

text \<open>Lines 68 to 73: the loop over \<^verbatim>\<open>input_keys\<close>, with \<^verbatim>\<open>chat_input\<close> passed along.\<close>

fun chat_input_loop :: "string \<Rightarrow> string \<Rightarrow> string list \<Rightarrow> chat_input \<Rightarrow> chat_input" where
  "chat_input_loop mem_key message [] chat_input = chat_input"
| "chat_input_loop mem_key message (key # rest) chat_input =
     (if key \<notin> set [mem_key, ''chat_history'']
      then chat_input_loop mem_key message rest (KeyedInput key message)
      else chat_input_loop mem_key message rest chat_input)"

definition build_chat_input :: "Handle \<Rightarrow> string \<Rightarrow> string \<Rightarrow> chat_input" where
  "build_chat_input langchain_object mem_key message =
     (case input_keys langchain_object of
        Some keys \<Rightarrow> chat_input_loop mem_key message keys NoInput
      | None \<Rightarrow> PlainInput message)"

text \<open>Lines 64 to 66: the memory key, or the empty string without a memory.\<close>

definition read_memory_key :: "Handle \<Rightarrow> exn + string" where
  "read_memory_key langchain_object =
     (case memory langchain_object of
        None \<Rightarrow> Inr []
      | Some mem \<Rightarrow>
          (case memory_key mem of
             None \<Rightarrow> Inl (no_attribute ''Memory'' ''memory_key'')
           | Some key \<Rightarrow> Inr key))"

text \<open>
  Lines 84 to 92: the call, and the call of \<^verbatim>\<open>run\<close> when the first one raised a
  \<^verbatim>\<open>ValueError\<close>. The list records which entry points were invoked, in order, and with
  which input.
\<close>

datatype entry_point = Called chat_input | Ran chat_input

definition invoke :: "collaborators \<Rightarrow> Handle \<Rightarrow> chat_input \<Rightarrow> invocation \<times> entry_point list" where
  "invoke c langchain_object chat_input =
     (let first = call_handle c langchain_object chat_input
      in case outcome first of
           Inr out \<Rightarrow> (first, [Called chat_input])
         | Inl exc \<Rightarrow>
             if is_ValueError exc
             then (let second = run_handle c (after first) chat_input
                   in (second\<lparr>printed := printed first @ printed second\<rparr>,
                       [Called chat_input, Ran chat_input]))
             else (first, [Called chat_input]))"

text \<open>
  \<^verbatim>\<open>format_actions(intermediate_steps)\<close> on whatever truthy value the output dict holds
  under \<^verbatim>\<open>"intermediate_steps"\<close>: the loop header unpacks every element into two. The
  elements of a string are its characters, those of a dict its keys.
\<close>

definition unpack_error :: "nat \<Rightarrow> exn" where
  "unpack_error n =
     (if n < 2 then Exn ValueError (''not enough values to unpack (expected 2, got ''
                      @ (if n = 0 then ''0'' else ''1'') @ '')'')
      else Exn ValueError ''too many values to unpack (expected 2)'')"

fun format_steps :: "pyval \<Rightarrow> exn + string" where
  "format_steps (PSteps steps) = Inr (format_actions steps)"
| "format_steps (PStr s) = (if s = [] then Inr [] else Inl (unpack_error 1))"
| "format_steps (PDict kvs) =
     (case kvs of
        [] \<Rightarrow> Inr []
      | (k, _) # _ \<Rightarrow>
          if length k = 2 then Inl (no_attribute ''str'' ''log'') else Inl (unpack_error (length k)))"
| "format_steps PNone = Inl (Exn TypeError (quoted ''NoneType'' @ '' object is not iterable''))"

text \<open>Lines 94 to 106: result and thought from the output and the captured text.\<close>

definition first_output_key :: "Handle \<Rightarrow> exn + string" where
  "first_output_key langchain_object =
     (case output_keys langchain_object of
        None \<Rightarrow> Inl (no_attribute ''Handle'' ''output_keys'')
      | Some [] \<Rightarrow> Inl (Exn IndexError ''list index out of range'')
      | Some (k # _) \<Rightarrow> Inr k)"

definition result_and_thought :: "Handle \<Rightarrow> pyval \<Rightarrow> string \<Rightarrow> exn + (pyval \<times> string)" where
  "result_and_thought langchain_object out captured =
     (let intermediate_steps =
            (case out of
               PDict kvs \<Rightarrow> (case map_of kvs ''intermediate_steps'' of None \<Rightarrow> PSteps [] | Some v \<Rightarrow> v)
             | _ \<Rightarrow> PSteps [])
      in case (case out of
                 PDict kvs \<Rightarrow>
                   (case first_output_key langchain_object of
                      Inl e \<Rightarrow> Inl e
                    | Inr k \<Rightarrow> Inr (case map_of kvs k of None \<Rightarrow> PNone | Some v \<Rightarrow> v))
               | _ \<Rightarrow> Inr out) of
           Inl e \<Rightarrow> Inl e
         | Inr result \<Rightarrow>
             if pyval_truthy intermediate_steps
             then (case format_steps intermediate_steps of
                     Inl e \<Rightarrow> Inl e
                   | Inr thought \<Rightarrow> Inr (result, thought))
             else Inr (result, captured))"

text \<open>
  What a run of \<^verbatim>\<open>get_result_and_thought\<close> leaves behind: the pair it returns or the
  exception it raises, the object as mutated, and the entry points invoked.
\<close>

record execution =
  returned :: "exn + (pyval \<times> string)"
  handle_after :: Handle
  invoked :: "entry_point list"

text \<open>
  Lines 61 to 81, before the pipeline is invoked: the flags are set, the structured input
  is built and the memory is reconciled. The result is the object as prepared and the
  input, or the exception raised and the object as it was then.
\<close>

definition prepare :: "collaborators \<Rightarrow> Handle \<Rightarrow> string \<Rightarrow> (exn \<times> Handle) + (Handle \<times> chat_input)" where
  "prepare c langchain_object message =
     (let h1 = (if verbose langchain_object \<noteq> None
                then langchain_object\<lparr>verbose := Some True\<rparr> else langchain_object)
      in case read_memory_key h1 of
           Inl e \<Rightarrow> Inl (e, h1)
         | Inr mem_key \<Rightarrow>
             (let chat_input = build_chat_input h1 mem_key message;
                  h2 = (if return_intermediate_steps h1 \<noteq> None
                        then h1\<lparr>return_intermediate_steps := Some False\<rparr> else h1)
              in case fix_memory_inputs c h2 of
                   Inl e \<Rightarrow> Inl (e, h2)
                 | Inr h3 \<Rightarrow> Inr (h3, chat_input)))"

text \<open>The body of the \<^verbatim>\<open>try\<close> statement (lines 61 to 106).\<close>

definition get_result_and_thought_try :: "collaborators \<Rightarrow> Handle \<Rightarrow> string \<Rightarrow> execution" where
  "get_result_and_thought_try c langchain_object message =
     (case prepare c langchain_object message of
        Inl (e, h) \<Rightarrow> \<lparr>returned = Inl e, handle_after = h, invoked = []\<rparr>
      | Inr (h3, chat_input) \<Rightarrow>
          (let (inv, entries) = invoke c h3 chat_input
           in case outcome inv of
                Inl e \<Rightarrow> \<lparr>returned = Inl e, handle_after = after inv, invoked = entries\<rparr>
              | Inr out \<Rightarrow>
                  \<lparr>returned = result_and_thought (after inv) out (printed inv),
                   handle_after = after inv, invoked = entries\<rparr>))"

text \<open>
  Lines 108 to 110: \<^verbatim>\<open>except Exception as exc: raise ValueError(f"Error: {str(exc)}")\<close>.
  An exception of a class that does not derive from \<^verbatim>\<open>Exception\<close> passes the clause.
\<close>

definition execution_error :: "exn \<Rightarrow> exn" where
  "execution_error exc = Exn ValueError (''Error: '' @ exn_str exc)"

definition get_result_and_thought :: "collaborators \<Rightarrow> Handle \<Rightarrow> string \<Rightarrow> execution" where
  "get_result_and_thought c langchain_object message =
     (let attempt = get_result_and_thought_try c langchain_object message
      in case returned attempt of
           Inl exc \<Rightarrow>
             if is_Exception exc then attempt\<lparr>returned := Inl (execution_error exc)\<rparr>
             else attempt
         | Inr pair \<Rightarrow> attempt)"


section \<open>Notions and examples for get_result_and_thought\<close>

text \<open>
  Objects and pipelines for the examples: a chain without memory that declares the one input
  key \<open>question\<close>, a chain whose memory key \<open>history\<close> is one of its two input keys, a
  chain with memory and several input keys, and pipelines that answer at once, that reject
  the call but accept \<^verbatim>\<open>run\<close>, that fail, and that are interrupted from the keyboard.
\<close>

definition question_handle :: Handle where
  "question_handle =
     \<lparr>verbose = Some False, memory = None, input_variables = None, prompt = None,
      input_keys = Some [''question''], output_keys = Some [''text''],
      return_intermediate_steps = None\<rparr>"


definition two_key_handle :: Handle where
  "two_key_handle =
     \<lparr>verbose = None, memory = Some \<lparr>memory_key = Some ''history''\<rparr>,
      input_variables = Some [''history'', ''topic'', ''question''], prompt = None,
      input_keys = Some [''topic'', ''history'', ''question'', ''chat_history''],
      output_keys = Some [''text''], return_intermediate_steps = Some True\<rparr>"

definition answering :: collaborators where
  "answering =
     \<lparr>call_handle = (\<lambda>h ci. \<lparr>outcome = Inr (PDict [(''text'', PStr ''answer'')]),
                                printed = ''thinking'', after = h\<rparr>),
      run_handle = (\<lambda>h ci. \<lparr>outcome = Inr (PStr ''answer''), printed = [], after = h\<rparr>),
      get_memory_key = (\<lambda>h. None)\<rparr>"

definition strict :: collaborators where
  "strict =
     \<lparr>call_handle = (\<lambda>h ci. \<lparr>outcome = Inl (Exn ValueError ''one input key expected''),
                                printed = ''first '', after = h\<rparr>),
      run_handle = (\<lambda>h ci. \<lparr>outcome = Inr (PStr ''answer''), printed = ''second'', after = h\<rparr>),
      get_memory_key = (\<lambda>h. None)\<rparr>"



text \<open>A chain all of whose input keys are the memory key or \<open>chat_history\<close>.\<close>

definition history_only_handle :: Handle where
  "history_only_handle =
     \<lparr>verbose = None, memory = Some \<lparr>memory_key = Some ''history''\<rparr>,
      input_variables = Some [''history''], prompt = None,
      input_keys = Some [''history'', ''chat_history''],
      output_keys = Some [''text''], return_intermediate_steps = None\<rparr>"


section \<open>Notions and examples for fix_memory_inputs\<close>

text \<open>
  The input names that an object declares (section 4.3, step 2): its
  \<^verbatim>\<open>input_variables\<close>; when it has none, the \<^verbatim>\<open>input_variables\<close> of its prompt; when it
  has no prompt, its \<^verbatim>\<open>input_keys\<close>.
\<close>

definition declared_input_names :: "Handle \<Rightarrow> string list option" where
  "declared_input_names langchain_object =
     (case input_variables langchain_object of
        Some vs \<Rightarrow> Some vs
      | None \<Rightarrow>
          (case prompt langchain_object of
             Some p \<Rightarrow> prompt_input_variables p
           | None \<Rightarrow> input_keys langchain_object))"

text \<open>
  Objects for the examples of memory reconciliation: one with a memory and no attribute
  that lists input names, a conversation chain whose prompt names the slot
  \<open>chat_history\<close> while its memory writes to \<open>history\<close>, a chain with the memory key
  \<open>history\<close> and the one input name \<open>input\<close>, a pipeline whose \<open>get_memory_key\<close> finds
  the slot \<open>chat_history\<close> among the declared input names, and one whose
  \<open>get_memory_key\<close> proposes \<open>history\<close> for \<open>chat_history\<close> and \<open>chat_history\<close> for
  \<open>history\<close>.
\<close>

definition bare_memory_handle :: Handle where
  "bare_memory_handle =
     \<lparr>verbose = None, memory = Some \<lparr>memory_key = Some ''history''\<rparr>,
      input_variables = None, prompt = None, input_keys = None,
      output_keys = Some [''text''], return_intermediate_steps = None\<rparr>"

definition chat_handle :: Handle where
  "chat_handle =
     \<lparr>verbose = None, memory = Some \<lparr>memory_key = Some ''history''\<rparr>,
      input_variables = None, prompt = Some \<lparr>prompt_input_variables = Some [''chat_history'', ''input'']\<rparr>,
      input_keys = Some [''input''],
      output_keys = Some [''text''], return_intermediate_steps = None\<rparr>"



definition slot_finder :: collaborators where
  "slot_finder =
     \<lparr>call_handle = (\<lambda>h ci. \<lparr>outcome = Inr (PStr ''answer''), printed = [], after = h\<rparr>),
      run_handle = (\<lambda>h ci. \<lparr>outcome = Inr (PStr ''answer''), printed = [], after = h\<rparr>),
      get_memory_key = (\<lambda>h. case declared_input_names h of
                                  None \<Rightarrow> None
                                | Some vs \<Rightarrow> if ''chat_history'' \<in> set vs then Some ''chat_history''
                                             else None)\<rparr>"


section \<open>load_flow_from_json\<close>

text \<open>
  The argument \<^verbatim>\<open>input\<close> of \<^verbatim>\<open>load_flow_from_json\<close>: a \<^verbatim>\<open>pathlib.Path\<close>, or any other
  Python value (a \<^verbatim>\<open>str\<close> is the value \<open>JStr\<close>, a dict the value \<open>JObj\<close>).
\<close>

datatype flow_input = PathInput string | ValueInput json

text \<open>
  What the function calls outside the module: \<open>read_json\<close> is
  \<^verbatim>\<open>open(input, "r", encoding="utf-8")\<close> followed by \<^verbatim>\<open>json.load(f)\<close>, \<open>new_graph\<close> is the
  constructor \<^verbatim>\<open>Graph(nodes, edges)\<close> and \<open>build_graph\<close> is \<^verbatim>\<open>graph.build()\<close>.
\<close>

record 'g loader =
  read_json :: "string \<Rightarrow> exn + json"
  new_graph :: "json \<Rightarrow> json \<Rightarrow> exn + 'g"
  build_graph :: "'g \<Rightarrow> exn + Handle"

text \<open>The calls made to the outside, in order.\<close>

datatype loader_event = Opened string | Constructed json json | Built

datatype 'g loaded = LoadedObject Handle | LoadedGraph 'g

text \<open>Lines 146 to 156: the document, or the exception, and the file opened on the way.\<close>

definition read_flow_graph :: "'g loader \<Rightarrow> flow_input \<Rightarrow> (exn + json) \<times> loader_event list" where
  "read_flow_graph ld inp =
     (case inp of
        PathInput p \<Rightarrow> (read_json ld p, [Opened p])
      | ValueInput (JStr p) \<Rightarrow> (read_json ld p, [Opened p])
      | ValueInput (JObj kvs) \<Rightarrow> (Inr (JObj kvs), [])
      | ValueInput _ \<Rightarrow>
          (Inl (Exn TypeError ''Input must be either a file path (str) or a JSON object (dict)''), []))"

text \<open>Lines 165 to 179, once the graph has been constructed.\<close>

definition finish_load :: "'g loader \<Rightarrow> collaborators \<Rightarrow> 'g \<Rightarrow> bool \<Rightarrow> (exn + 'g loaded) \<times> loader_event list" where
  "finish_load ld c graph build =
     (if build
      then (case build_graph ld graph of
              Inl e \<Rightarrow> (Inl e, [Built])
            | Inr langchain_object \<Rightarrow>
                (let h1 = (if verbose langchain_object \<noteq> None
                           then langchain_object\<lparr>verbose := Some True\<rparr> else langchain_object);
                     h2 = (if return_intermediate_steps h1 \<noteq> None
                           then h1\<lparr>return_intermediate_steps := Some False\<rparr> else h1)
                 in case fix_memory_inputs c h2 of
                      Inl e \<Rightarrow> (Inl e, [Built])
                    | Inr h3 \<Rightarrow> (Inr (LoadedObject h3), [Built])))
      else (Inr (LoadedGraph graph), []))"

text \<open>
  Lines 158 to 179, on the document. \<open>tweaks\<close> is \<open>JNull\<close> for \<^verbatim>\<open>None\<close>, the default.
\<close>

definition load_document ::
  "'g loader \<Rightarrow> collaborators \<Rightarrow> json \<Rightarrow> json \<Rightarrow> bool \<Rightarrow> (exn + 'g loaded) \<times> loader_event list" where
  "load_document ld c flow_graph tweaks build =
     (case subscript flow_graph ''data'' of
        Inl e \<Rightarrow> (Inl e, [])
      | Inr graph_data0 \<Rightarrow>
          (case (if tweaks \<noteq> JNull then process_tweaks graph_data0 tweaks else Inr graph_data0) of
             Inl e \<Rightarrow> (Inl e, [])
           | Inr graph_data \<Rightarrow>
               (case subscript graph_data ''nodes'' of
                  Inl e \<Rightarrow> (Inl e, [])
                | Inr nodes \<Rightarrow>
                    (case subscript graph_data ''edges'' of
                       Inl e \<Rightarrow> (Inl e, [])
                     | Inr edges \<Rightarrow>
                         (case new_graph ld nodes edges of
                            Inl e \<Rightarrow> (Inl e, [Constructed nodes edges])
                          | Inr graph \<Rightarrow>
                              (let (res, evs) = finish_load ld c graph build
                               in (res, Constructed nodes edges # evs)))))))"

definition load_flow_from_json ::
  "'g loader \<Rightarrow> collaborators \<Rightarrow> flow_input \<Rightarrow> json \<Rightarrow> bool \<Rightarrow> (exn + 'g loaded) \<times> loader_event list" where
  "load_flow_from_json ld c inp tweaks build =
     (case read_flow_graph ld inp of
        (Inl e, opened) \<Rightarrow> (Inl e, opened)
      | (Inr flow_graph, opened) \<Rightarrow>
          (let (res, evs) = load_document ld c flow_graph tweaks build
           in (res, opened @ evs)))"

text \<open>
  A loader for the examples: one file on disk, a graph that is the pair of its nodes and
  edges, and a build that yields an object without capabilities.
\<close>

definition plain_handle :: Handle where
  "plain_handle =
     \<lparr>verbose = None, memory = None, input_variables = None, prompt = None,
      input_keys = None, output_keys = None, return_intermediate_steps = None\<rparr>"

definition quiet :: collaborators where
  "quiet =
     \<lparr>call_handle = (\<lambda>h ci. \<lparr>outcome = Inr (PStr ''answer''), printed = [], after = h\<rparr>),
      run_handle = (\<lambda>h ci. \<lparr>outcome = Inr (PStr ''answer''), printed = [], after = h\<rparr>),
      get_memory_key = (\<lambda>h. None)\<rparr>"

definition wrapped_document :: json where
  "wrapped_document = JObj [(''data'', JObj [(''nodes'', JArr []), (''edges'', JArr [])])]"

definition bare_document :: json where
  "bare_document = JObj [(''nodes'', JArr []), (''edges'', JArr [])]"

definition disk_loader :: "(json \<times> json) loader" where
  "disk_loader =
     \<lparr>read_json = (\<lambda>p. if p = ''flow.json'' then Inr wrapped_document
                         else Inl (Exn (OtherException ''FileNotFoundError'') p)),
      new_graph = (\<lambda>nodes edges. Inr (nodes, edges)),
      build_graph = (\<lambda>g. Inr plain_handle)\<rparr>"


section \<open>Notions and examples for process_tweaks\<close>

fun is_dict :: "json \<Rightarrow> bool" where
  "is_dict (JObj _) = True"
| "is_dict _ = False"

text \<open>The template of a node, \<^verbatim>\<open>node["data"]["node"]["template"]\<close>, when all of these are dicts.\<close>

definition node_template :: "json \<Rightarrow> (string \<times> json) list option" where
  "node_template node =
     (case node of
        JObj n \<Rightarrow>
          (case map_of n ''data'' of
             Some (JObj d) \<Rightarrow>
               (case map_of d ''node'' of
                  Some (JObj nd) \<Rightarrow>
                    (case map_of nd ''template'' of Some (JObj t) \<Rightarrow> Some t | _ \<Rightarrow> None)
                | _ \<Rightarrow> None)
           | _ \<Rightarrow> None)
      | _ \<Rightarrow> None)"

text \<open>\<^verbatim>\<open>template[name]["value"]\<close>, when the entry is a dict that has the field.\<close>

definition param_value :: "(string \<times> json) list \<Rightarrow> string \<Rightarrow> json option" where
  "param_value template_data name =
     (case map_of template_data name of Some (JObj entry) \<Rightarrow> map_of entry ''value'' | _ \<Rightarrow> None)"

text \<open>
  The first line of \<^verbatim>\<open>apply_tweaks\<close> calls \<^verbatim>\<open>get\<close> on what the node stores under
  \<open>data\<close> and on what that stores under \<open>node\<close>: each is a dict, or is absent.
\<close>

definition template_reachable :: "(string \<times> json) list \<Rightarrow> bool" where
  "template_reachable n =
     (case map_of n ''data'' of
        None \<Rightarrow> True
      | Some (JObj d) \<Rightarrow>
          (case map_of d ''node'' of
             None \<Rightarrow> True
           | Some (JObj nd) \<Rightarrow> True
           | Some _ \<Rightarrow> False)
      | Some _ \<Rightarrow> False)"

text \<open>
  Line 209 assigns into the template entry of every tweak that has a non-empty name and a
  truthy value: each entry that such a tweak names is a dict (a descriptor
  \<open>{value, ...}\<close>). Other entries of the template may be anything.
\<close>

definition assignable :: "(string \<times> json) list \<Rightarrow> (string \<times> json) list \<Rightarrow> bool" where
  "assignable items tpl =
     list_all (\<lambda>(p, v). p = [] \<or> \<not> truthy v
                 \<or> (case map_of tpl p of None \<Rightarrow> True | Some e \<Rightarrow> is_dict e)) items"

text \<open>
  A node to which the tweaks can be applied: when it is a dict with a string id for which
  the tweak map has a non-empty entry, its template is reachable and the entry is
  assignable to the template, if there is one. Any other node is passed over.
\<close>

definition tweakable :: "(string \<times> json) list \<Rightarrow> json \<Rightarrow> bool" where
  "tweakable tweaks node =
     (case node of
        JObj n \<Rightarrow>
          (case map_of n ''id'' of
             Some (JStr node_id) \<Rightarrow>
               (case map_of tweaks node_id of
                  Some (JObj items) \<Rightarrow>
                    items = [] \<or>
                    (template_reachable n \<and>
                     (case node_template node of
                        None \<Rightarrow> True
                      | Some tpl \<Rightarrow> assignable items tpl))
                | _ \<Rightarrow> True)
           | _ \<Rightarrow> True)
      | _ \<Rightarrow> True)"

text \<open>
  A tweak map (section 3): every node id is mapped to a dict from parameter names to
  values. The keys of a dict are distinct.
\<close>

definition tweak_map :: "(string \<times> json) list \<Rightarrow> bool" where
  "tweak_map tweaks =
     list_all (\<lambda>node_tweaks. case node_tweaks of
                               JObj items \<Rightarrow> distinct (map fst items)
                             | _ \<Rightarrow> False) (map snd tweaks)"

text \<open>A template entry after the assignment of a value.\<close>

fun with_value :: "json \<Rightarrow> json \<Rightarrow> json" where
  "with_value v (JObj entry) = JObj (AList.update ''value'' v entry)"
| "with_value v x = x"

text \<open>
  What the tweaks \<open>items\<close> of one node have done to its template \<open>tpl\<close>, giving
  \<open>tpl'\<close>. The parameter names are the same, in the same order. A parameter of the
  template that is named with a non-empty name and a truthy value was a descriptor and is
  that descriptor with the value stored in its \<open>value\<close> field, every other field as it
  was. A parameter not named so is unchanged.
\<close>

definition tweaks_applied ::
  "(string \<times> json) list \<Rightarrow> (string \<times> json) list \<Rightarrow> (string \<times> json) list \<Rightarrow> bool" where
  "tweaks_applied items tpl tpl' =
     (map fst tpl' = map fst tpl \<and>
      (\<forall>(p, v) \<in> set items. p \<noteq> [] \<and> truthy v \<and> p \<in> set (map fst tpl)
          \<longrightarrow> (\<exists>entry. map_of tpl p = Some (JObj entry)
                 \<and> map_of tpl' p = Some (JObj (AList.update ''value'' v entry))
                 \<and> param_value tpl' p = Some v)) \<and>
      (\<forall>p. (\<forall>v. (p, v) \<in> set items \<longrightarrow> p = [] \<or> \<not> truthy v)
          \<longrightarrow> map_of tpl' p = map_of tpl p))"

text \<open>
  The description of scenario A: one node whose template has the parameter
  \<open>temperature\<close>, next to the entry \<open>_type\<close> that is not a descriptor, and the tweak map
  that overrides the temperature.
\<close>

definition flow_with_temperature :: "json \<Rightarrow> json" where
  "flow_with_temperature v =
     JObj [(''nodes'',
            JArr [JObj [(''id'', JStr ''llm-1''),
                        (''data'', JObj [(''node'', JObj [(''template'',
                            JObj [(''_type'', JStr ''OpenAI''),
                                  (''temperature'',
                                   JObj [(''type'', JStr ''float''), (''value'', v)])])])])]]),
           (''edges'', JArr [])]"

definition temperature_tweak :: "json \<Rightarrow> json" where
  "temperature_tweak v = JObj [(''llm-1'', JObj [(''temperature'', v)])]"


section \<open>Properties of format_actions\<close>

text \<open>\<open>str_in\<close> is the contiguous-sublist relation of the library.\<close>

lemma str_in_sublist: "str_in sub s = sublist sub s"
  by (induction s) (auto simp: sublist_Cons_right)

text \<open>The loop appends the lines of the pairs, in order, to what it was given.\<close>

lemma format_actions_loop_lines:
  "format_actions_loop actions output = output @ trace_lines actions"
proof (induction actions arbitrary: "output")
  case Nil
  show ?case by (simp add: trace_lines_def)
next
  case (Cons p rest)
  obtain action answer where p: "p = (action, answer)" by (cases p)
  show ?case
    unfolding p
    by (simp add: Cons.IH trace_lines_def trace_block_def mentions_marker_def Let_def)
qed

lemma format_actions_lines:
  "format_actions actions = join newline (trace_lines actions)"
  by (simp add: format_actions_def format_actions_loop_lines)

text \<open>Joining two non-empty lists of lines puts one separator between them.\<close>

lemma join_append:
  "xs \<noteq> [] \<Longrightarrow> ys \<noteq> [] \<Longrightarrow> join sep (xs @ ys) = join sep xs @ sep @ join sep ys"
proof (induction sep xs rule: join.induct)
  case (2 sep x)
  then show ?case by (cases ys) simp_all
qed simp_all

lemma trace_block_nonempty: "trace_block p \<noteq> []"
  by (simp add: trace_block_def)

lemma trace_lines_nonempty: "trace_lines (p # rest) \<noteq> []"
  by (simp add: trace_lines_def trace_block_nonempty)

text \<open>The lines of one pair, joined: every line of the pair ends with a newline.\<close>

lemma join_trace_block:
  "join newline (trace_block (a, ans)) =
     ''Log: '' @ log a @ [CHR 0x0A]
     @ (if sublist ''Action'' (log a) \<or> sublist ''Action Input'' (log a) then []
        else ''Tool: '' @ tool a @ [CHR 0x0A] @ ''Tool Input: '' @ tool_input a @ [CHR 0x0A])
     @ ''Answer: '' @ ans @ [CHR 0x0A]"
  by (simp add: trace_block_def mentions_marker_def newline_def str_in_sublist)

text \<open>
  Claim C8. \<open>format_actions\<close> is a total function of its argument alone, so it has no
  effects and cannot fail. On the empty list it returns the empty string. For one pair it
  returns the text \<open>Log: \<close> and the log of the action, a newline, then, exactly when
  neither \<open>Action\<close> nor \<open>Action Input\<close> occurs in the log, the lines \<open>Tool: \<close> with the
  tool and \<open>Tool Input: \<close> with its input, then \<open>Answer: \<close> with the answer and a newline,
  which is followed by the empty last line. For more pairs the texts of the pairs follow
  one another in order, a newline between each two: the lines of all pairs, joined with
  newlines.
\<close>

theorem format_actions_trace:
  "format_actions [] = [] \<and>
   format_actions [(a, ans)] =
     ''Log: '' @ log a @ [CHR 0x0A]
     @ (if sublist ''Action'' (log a) \<or> sublist ''Action Input'' (log a) then []
        else ''Tool: '' @ tool a @ [CHR 0x0A] @ ''Tool Input: '' @ tool_input a @ [CHR 0x0A])
     @ ''Answer: '' @ ans @ [CHR 0x0A] \<and>
   format_actions ((a, ans) # p # rest) =
     ''Log: '' @ log a @ [CHR 0x0A]
     @ (if sublist ''Action'' (log a) \<or> sublist ''Action Input'' (log a) then []
        else ''Tool: '' @ tool a @ [CHR 0x0A] @ ''Tool Input: '' @ tool_input a @ [CHR 0x0A])
     @ ''Answer: '' @ ans @ [CHR 0x0A]
     @ [CHR 0x0A] @ format_actions (p # rest)"
proof -
  have 0: "format_actions [] = []"
    by (simp add: format_actions_def)
  have 1: "format_actions [(a, ans)] = join newline (trace_block (a, ans))"
    by (simp add: format_actions_lines trace_lines_def)
  have "trace_lines ((a, ans) # p # rest) = trace_block (a, ans) @ trace_lines (p # rest)"
    by (simp add: trace_lines_def)
  then have 2: "format_actions ((a, ans) # p # rest) =
      join newline (trace_block (a, ans)) @ newline @ format_actions (p # rest)"
    using join_append [OF trace_block_nonempty trace_lines_nonempty]
    by (simp add: format_actions_lines)
  show ?thesis
    using 0 1 2 unfolding join_trace_block by (simp add: newline_def)
qed

text \<open>
  The example of section 8: one pair whose log has no marker gives the log line, a
  \<open>Tool:\<close> line, a \<open>Tool Input:\<close> line and the line \<open>Answer: 42\<close>, ended by a newline.
\<close>

theorem format_actions_trace_witness:
  "format_actions [(\<lparr>tool = ''calculator'', tool_input = ''6 * 7'', log = ''I should multiply''\<rparr>, ''42'')]
     = ''Log: I should multiply'' @ [CHR 0x0A] @ ''Tool: calculator'' @ [CHR 0x0A]
       @ ''Tool Input: 6 * 7'' @ [CHR 0x0A] @ ''Answer: 42'' @ [CHR 0x0A]"
proof -
  have "\<not> (sublist ''Action'' ''I should multiply'' \<or> sublist ''Action Input'' ''I should multiply'')"
    unfolding str_in_sublist [symmetric] by simp
  then show ?thesis
    using format_actions_trace
      [of "\<lparr>tool = ''calculator'', tool_input = ''6 * 7'', log = ''I should multiply''\<rparr>" "''42''"]
    by simp
qed

text \<open>With a marker in the log the two tool lines are left out; two pairs are set apart
  by an empty line.\<close>

lemma format_actions_marked_example:
  "format_actions [(\<lparr>tool = ''calculator'', tool_input = ''6 * 7'',
                     log = ''Action: calculator''\<rparr>, ''42'')]
     = ''Log: Action: calculator'' @ [CHR 0x0A] @ ''Answer: 42'' @ [CHR 0x0A]"
  by (simp add: format_actions_def newline_def Let_def)

lemma format_actions_two_example:
  "format_actions [(\<lparr>tool = ''search'', tool_input = ''x'', log = ''Action: search''\<rparr>, ''1''),
                   (\<lparr>tool = ''search'', tool_input = ''y'', log = ''Action: search''\<rparr>, ''2'')]
     = ''Log: Action: search'' @ [CHR 0x0A] @ ''Answer: 1'' @ [CHR 0x0A] @ [CHR 0x0A]
       @ ''Log: Action: search'' @ [CHR 0x0A] @ ''Answer: 2'' @ [CHR 0x0A]"
  by (simp add: format_actions_def newline_def Let_def)


section \<open>Properties of get_result_and_thought\<close>

text \<open>The loop keeps the last key that is neither the memory key nor \<open>chat_history\<close>.\<close>

lemma chat_input_loop_last:
  "chat_input_loop mk msg keys ci =
     (if filter (\<lambda>k. k \<noteq> mk \<and> k \<noteq> ''chat_history'') keys = [] then ci
      else KeyedInput (last (filter (\<lambda>k. k \<noteq> mk \<and> k \<noteq> ''chat_history'') keys)) msg)"
  by (induction keys arbitrary: ci) auto

lemma read_memory_key_verbose [simp]:
  "read_memory_key (h\<lparr>verbose := v\<rparr>) = read_memory_key h"
  by (simp add: read_memory_key_def)

lemma build_chat_input_verbose [simp]:
  "build_chat_input (h\<lparr>verbose := v\<rparr>) mk msg = build_chat_input h mk msg"
  by (simp add: build_chat_input_def)

lemma prepare_input:
  assumes "prepare c h message = Inr (h', ci)"
  shows "\<exists>mk. read_memory_key h = Inr mk \<and> ci = build_chat_input h mk message"
  using assms
  by (auto simp: prepare_def Let_def split: sum.splits if_splits)

text \<open>The input that a completed preparation has built, from the memory of the object.\<close>

lemma prepare_input_memory:
  assumes "prepare c h message = Inr (h', ci)"
    and "memory h = Some mem" and "memory_key mem = Some mk"
  shows "ci = build_chat_input h mk message"
proof -
  have "read_memory_key h = Inr mk"
    using assms(2,3) by (simp add: read_memory_key_def)
  with prepare_input [OF assms(1)] show ?thesis by auto
qed

lemma prepare_input_no_memory:
  assumes "prepare c h message = Inr (h', ci)" and "memory h = None"
  shows "ci = build_chat_input h [] message"
proof -
  have "read_memory_key h = Inr []"
    using assms(2) by (simp add: read_memory_key_def)
  with prepare_input [OF assms(1)] show ?thesis by auto
qed


lemma invoke_entries:
  "snd (invoke c h ci) = [Called ci] \<or> snd (invoke c h ci) = [Called ci, Ran ci]"
  by (auto simp: invoke_def Let_def split: sum.splits)

lemma invoked_prepared:
  assumes "prepare c h message = Inr (h', ci)"
  shows "invoked (get_result_and_thought c h message) = snd (invoke c h' ci)"
  using assms
  by (auto simp: get_result_and_thought_def get_result_and_thought_try_def Let_def split: sum.splits prod.splits)

lemma invoked_first:
  assumes "prepare c h message = Inr (h', ci)"
  shows "\<exists>rest. invoked (get_result_and_thought c h message) = Called ci # rest"
  using invoked_prepared [OF assms] invoke_entries [of c h' ci] by auto


lemma format_steps_raises_Exception:
  "format_steps v = Inl exc \<Longrightarrow> is_Exception exc"
  by (cases v) (auto simp: unpack_error_def no_attribute_def split: if_splits list.splits)

lemma result_and_thought_raises_Exception:
  assumes "result_and_thought h out captured = Inl exc"
  shows "is_Exception exc"
  using assms
  by (auto simp: result_and_thought_def Let_def first_output_key_def no_attribute_def
      dest: format_steps_raises_Exception
      split: sum.splits if_splits option.splits list.splits pyval.splits)




text \<open>
  Claim C10. Let the preparation complete on an object that declares input keys, and let
  \<open>mk\<close> be the key of its memory, or the empty string when it has no memory. The
  structured input is the dict with the last key, in declaration order, that is neither
  \<open>mk\<close> nor \<open>chat_history\<close>; when there is no such key it stays \<^verbatim>\<open>None\<close>; and that value
  is what the pipeline is called with.
\<close>

theorem structured_input_last_key:
  assumes "prepare c h message = Inr (h', ci)"
    and "input_keys h = Some keys"
    and "(memory h = None \<and> mk = []) \<or> (\<exists>mem. memory h = Some mem \<and> memory_key mem = Some mk)"
  shows "(filter (\<lambda>k. k \<noteq> mk \<and> k \<noteq> ''chat_history'') keys \<noteq> [] \<longrightarrow>
            ci = KeyedInput (last (filter (\<lambda>k. k \<noteq> mk \<and> k \<noteq> ''chat_history'') keys)) message) \<and>
         (filter (\<lambda>k. k \<noteq> mk \<and> k \<noteq> ''chat_history'') keys = [] \<longrightarrow> ci = NoInput) \<and>
         (\<exists>rest. invoked (get_result_and_thought c h message) = Called ci # rest)"
proof -
  have ci: "ci = build_chat_input h mk message"
    using assms(3) prepare_input_memory [OF assms(1)] prepare_input_no_memory [OF assms(1)]
    by blast
  show ?thesis
    using ci assms(2) invoked_first [OF assms(1)]
    by (simp add: build_chat_input_def chat_input_loop_last)
qed

lemma prepare_two_key:
  "prepare answering two_key_handle ''hi''
     = Inr (two_key_handle\<lparr>return_intermediate_steps := Some False\<rparr>, KeyedInput ''question'' ''hi'')"
  by (simp add: prepare_def read_memory_key_def fix_memory_inputs_def two_key_handle_def
      build_chat_input_def Let_def)

lemma prepare_history_only:
  "prepare answering history_only_handle ''hi'' = Inr (history_only_handle, NoInput)"
  by (simp add: prepare_def read_memory_key_def fix_memory_inputs_def history_only_handle_def
      build_chat_input_def Let_def)

theorem structured_input_last_key_witness:
  "invoked (get_result_and_thought answering history_only_handle ''hi'') = [Called NoInput] \<and>
   filter (\<lambda>k. k \<noteq> ''history'' \<and> k \<noteq> ''chat_history'')
       [''topic'', ''history'', ''question'', ''chat_history'']
     = [''topic'', ''question''] \<and>
   invoked (get_result_and_thought answering two_key_handle ''hi'')
     = [Called (KeyedInput ''question'' ''hi'')]"
proof -
  have m: "(memory history_only_handle = None \<and> ''history'' = [])
           \<or> (\<exists>mem. memory history_only_handle = Some mem \<and> memory_key mem = Some ''history'')"
    by (simp add: history_only_handle_def)
  have i: "input_keys history_only_handle = Some [''history'', ''chat_history'']"
    by (simp add: history_only_handle_def)
  from structured_input_last_key [OF prepare_history_only i m]
  obtain rest where
    r: "invoked (get_result_and_thought answering history_only_handle ''hi'') = Called NoInput # rest"
    by blast
  have "length (invoked (get_result_and_thought answering history_only_handle ''hi'')) = 1"
    using invoked_prepared [OF prepare_history_only] by (simp add: invoke_def answering_def Let_def)
  with r have 1: "invoked (get_result_and_thought answering history_only_handle ''hi'')
      = [Called NoInput]" by simp
  have m2: "(memory two_key_handle = None \<and> ''history'' = [])
           \<or> (\<exists>mem. memory two_key_handle = Some mem \<and> memory_key mem = Some ''history'')"
    by (simp add: two_key_handle_def)
  have i2: "input_keys two_key_handle = Some [''topic'', ''history'', ''question'', ''chat_history'']"
    by (simp add: two_key_handle_def)
  from structured_input_last_key [OF prepare_two_key i2 m2]
  obtain rest2 where
    r2: "invoked (get_result_and_thought answering two_key_handle ''hi'')
          = Called (KeyedInput ''question'' ''hi'') # rest2"
    by blast
  have "length (invoked (get_result_and_thought answering two_key_handle ''hi'')) = 1"
    using invoked_prepared [OF prepare_two_key] by (simp add: invoke_def answering_def Let_def)
  with r2 have 2: "invoked (get_result_and_thought answering two_key_handle ''hi'')
     = [Called (KeyedInput ''question'' ''hi'')]" by simp
  show ?thesis using 1 2 by simp
qed

text \<open>
  Claim C3. When the call of the prepared object raises a \<^verbatim>\<open>ValueError\<close> and
  \<^verbatim>\<open>run\<close> on the same input returns \<open>out\<close>, the entry points invoked are the call and
  then \<^verbatim>\<open>run\<close>, once each and with the same input, and result and thought are computed
  from \<open>out\<close>: the first error is not propagated. When \<open>out\<close> is not a dict it is the
  result itself, and the thought is the text captured during both attempts.
\<close>

theorem fallback_run_used:
  assumes "prepare c h message = Inr (h', ci)"
    and "outcome (call_handle c h' ci) = Inl exc"
    and "is_ValueError exc"
    and "outcome (run_handle c (after (call_handle c h' ci)) ci) = Inr out"
  shows "invoked (get_result_and_thought c h message) = [Called ci, Ran ci] \<and>
         returned (get_result_and_thought c h message) =
           (case result_and_thought
                   (after (run_handle c (after (call_handle c h' ci)) ci)) out
                   (printed (call_handle c h' ci)
                    @ printed (run_handle c (after (call_handle c h' ci)) ci)) of
              Inl e \<Rightarrow> Inl (execution_error e)
            | Inr pair \<Rightarrow> Inr pair) \<and>
         ((\<forall>kvs. out \<noteq> PDict kvs) \<longrightarrow>
            returned (get_result_and_thought c h message) =
              Inr (out, printed (call_handle c h' ci)
                        @ printed (run_handle c (after (call_handle c h' ci)) ci)))"
proof -
  have inv: "invoke c h' ci =
      ((run_handle c (after (call_handle c h' ci)) ci)
         \<lparr>printed := printed (call_handle c h' ci)
                     @ printed (run_handle c (after (call_handle c h' ci)) ci)\<rparr>,
       [Called ci, Ran ci])"
    using assms(2,3) by (simp add: invoke_def Let_def)
  have plain: "result_and_thought hh out cap = Inr (out, cap)" if "\<forall>kvs. out \<noteq> PDict kvs" for hh cap
    using that by (cases out) (simp_all add: result_and_thought_def)
  show ?thesis
    using assms(1,4) inv plain
    by (auto simp: get_result_and_thought_def get_result_and_thought_try_def Let_def
        dest: result_and_thought_raises_Exception split: sum.splits)
qed

lemma prepare_strict:
  "prepare strict question_handle ''hello''
     = Inr (question_handle\<lparr>verbose := Some True\<rparr>, KeyedInput ''question'' ''hello'')"
  by (simp add: prepare_def read_memory_key_def fix_memory_inputs_def question_handle_def
      build_chat_input_def Let_def)

theorem fallback_run_used_witness:
  "invoked (get_result_and_thought strict question_handle ''hello'')
     = [Called (KeyedInput ''question'' ''hello''), Ran (KeyedInput ''question'' ''hello'')] \<and>
   returned (get_result_and_thought strict question_handle ''hello'')
     = Inr (PStr ''answer'', ''first second'')"
proof -
  have a: "outcome (call_handle strict (question_handle\<lparr>verbose := Some True\<rparr>)
             (KeyedInput ''question'' ''hello'')) = Inl (Exn ValueError ''one input key expected'')"
    by (simp add: strict_def)
  have b: "is_ValueError (Exn ValueError ''one input key expected'')" by simp
  have c: "outcome (run_handle strict
             (after (call_handle strict (question_handle\<lparr>verbose := Some True\<rparr>)
                (KeyedInput ''question'' ''hello'')))
             (KeyedInput ''question'' ''hello'')) = Inr (PStr ''answer'')"
    by (simp add: strict_def)
  show ?thesis
    using fallback_run_used [OF prepare_strict a b c]
    by (simp add: strict_def result_and_thought_def)
qed






section \<open>Properties of fix_memory_inputs\<close>

lemma declared_input_names_update [simp]:
  "declared_input_names (update_memory_keys h k) = declared_input_names h"
  by (simp add: declared_input_names_def update_memory_keys_def handler_input_variables_def
      split: option.splits)

lemma fix_memory_inputs_cases:
  assumes "memory h = Some mem" and "memory_key mem = Some key"
    and "declared_input_names h = Some vs"
  shows "fix_memory_inputs c h =
           (if key \<in> set vs then Inr h else Inr (replace_memory_key c h))"
  using assms
  by (auto simp: fix_memory_inputs_def declared_input_names_def handler_input_variables_def
      split: option.splits sum.splits)

lemma fix_memory_inputs_raises:
  assumes "fix_memory_inputs c h = Inl e"
  shows "exn_cls e = AttributeError \<and>
         (\<exists>mem. memory h = Some mem \<and> (memory_key mem = None \<or> declared_input_names h = None))"
  using assms
  by (auto simp: fix_memory_inputs_def declared_input_names_def handler_input_variables_def
      no_attribute_def split: option.splits sum.splits if_splits)

lemma fix_memory_inputs_must_raise:
  assumes "memory h = Some mem"
    and "memory_key mem = None \<or> declared_input_names h = None"
  shows "\<exists>e. fix_memory_inputs c h = Inl e \<and> exn_cls e = AttributeError"
  using assms
  by (auto simp: fix_memory_inputs_def declared_input_names_def handler_input_variables_def
      no_attribute_def split: option.splits sum.splits if_splits)

text \<open>
  Claim C6 as stated fails: an object that has a memory but neither \<^verbatim>\<open>input_variables\<close>
  nor \<^verbatim>\<open>prompt\<close> nor \<^verbatim>\<open>input_keys\<close> makes \<^verbatim>\<open>fix_memory_inputs\<close> raise the
  \<^verbatim>\<open>AttributeError\<close> of the read in its handler.
\<close>

theorem fix_memory_inputs_counterexample:
  "fix_memory_inputs slot_finder bare_memory_handle = Inl (no_attribute ''Handle'' ''input_keys'')"
  by (simp add: fix_memory_inputs_def handler_input_variables_def bare_memory_handle_def)

text \<open>
  Claim C6, amended. Without a memory \<^verbatim>\<open>fix_memory_inputs\<close> returns at once and leaves
  the object as it is. With a memory that has a \<^verbatim>\<open>memory_key\<close>, on an object that
  declares input names (\<^verbatim>\<open>input_variables\<close>; without them the \<^verbatim>\<open>input_variables\<close> of its
  prompt; without a prompt its \<^verbatim>\<open>input_keys\<close>), it does not raise: it leaves the object
  unchanged when the key is among these names or \<^verbatim>\<open>get_memory_key\<close> returns \<^verbatim>\<open>None\<close>, and
  otherwise rewrites the memory key to the key \<^verbatim>\<open>get_memory_key\<close> returned, changing
  nothing else. What it can raise is an \<^verbatim>\<open>AttributeError\<close>, and it raises one exactly
  when the object has a memory and the memory has no \<^verbatim>\<open>memory_key\<close> or the object
  declares no input names.
\<close>

theorem fix_memory_inputs_safe:
  "(memory h = None \<longrightarrow> fix_memory_inputs c h = Inr h) \<and>
   (memory h = Some mem \<and> memory_key mem = Some key \<and> declared_input_names h = Some vs \<longrightarrow>
      fix_memory_inputs c h = Inr h \<or>
      (\<exists>k. get_memory_key c h = Some k \<and> fix_memory_inputs c h = Inr (update_memory_keys h k))) \<and>
   (fix_memory_inputs c h = Inl e \<longrightarrow>
      exn_cls e = AttributeError \<and>
      (\<exists>m. memory h = Some m \<and> (memory_key m = None \<or> declared_input_names h = None))) \<and>
   (memory h = Some mem \<and> (memory_key mem = None \<or> declared_input_names h = None) \<longrightarrow>
      (\<exists>e'. fix_memory_inputs c h = Inl e' \<and> exn_cls e' = AttributeError)) \<and>
   (memory h = Some mem \<and> memory_key mem = Some key \<and> declared_input_names h = Some vs \<longrightarrow>
      fix_memory_inputs c h =
        (if key \<in> set vs then Inr h
         else case get_memory_key c h of
                None \<Rightarrow> Inr h
              | Some k \<Rightarrow> Inr (h\<lparr>memory := Some (mem\<lparr>memory_key := Some k\<rparr>)\<rparr>)))"
proof -
  have 1: "fix_memory_inputs c h = Inr h" if "memory h = None"
    using that by (simp add: fix_memory_inputs_def)
  have 5: "fix_memory_inputs c h =
        (if key \<in> set vs then Inr h
         else case get_memory_key c h of
                None \<Rightarrow> Inr h
              | Some k \<Rightarrow> Inr (h\<lparr>memory := Some (mem\<lparr>memory_key := Some k\<rparr>)\<rparr>))"
    if a: "memory h = Some mem \<and> memory_key mem = Some key \<and> declared_input_names h = Some vs"
  proof -
    have "fix_memory_inputs c h = (if key \<in> set vs then Inr h else Inr (replace_memory_key c h))"
      using a fix_memory_inputs_cases by blast
    then show ?thesis
      using a by (simp add: replace_memory_key_def update_memory_keys_def split: option.splits)
  qed
  have 2: "fix_memory_inputs c h = Inr h \<or>
      (\<exists>k. get_memory_key c h = Some k \<and> fix_memory_inputs c h = Inr (update_memory_keys h k))"
    if "memory h = Some mem \<and> memory_key mem = Some key \<and> declared_input_names h = Some vs"
  proof -
    have "fix_memory_inputs c h = (if key \<in> set vs then Inr h else Inr (replace_memory_key c h))"
      using that fix_memory_inputs_cases by blast
    then show ?thesis
      by (auto simp: replace_memory_key_def split: option.splits)
  qed
  have 3: "exn_cls e = AttributeError \<and>
      (\<exists>m. memory h = Some m \<and> (memory_key m = None \<or> declared_input_names h = None))"
    if "fix_memory_inputs c h = Inl e"
    using that by (rule fix_memory_inputs_raises)
  have 4: "\<exists>e'. fix_memory_inputs c h = Inl e' \<and> exn_cls e' = AttributeError"
    if "memory h = Some mem \<and> (memory_key mem = None \<or> declared_input_names h = None)"
    using that fix_memory_inputs_must_raise by blast
  show ?thesis using 1 2 3 4 5 by blast
qed

theorem fix_memory_inputs_safe_witness:
  "fix_memory_inputs slot_finder chat_handle
     = Inr (chat_handle\<lparr>memory := Some \<lparr>memory_key = Some ''chat_history''\<rparr>\<rparr>)"
proof -
  have a: "memory chat_handle = Some \<lparr>memory_key = Some ''history''\<rparr>
           \<and> memory_key \<lparr>memory_key = Some ''history''\<rparr> = Some ''history''
           \<and> declared_input_names chat_handle = Some [''chat_history'', ''input'']"
    by (simp add: chat_handle_def declared_input_names_def handler_input_variables_def)
  have c: "get_memory_key slot_finder chat_handle = Some ''chat_history''"
    by (simp add: slot_finder_def chat_handle_def declared_input_names_def handler_input_variables_def)
  from fix_memory_inputs_safe [of chat_handle slot_finder "\<lparr>memory_key = Some ''history''\<rparr>"
      "''history''" "[''chat_history'', ''input'']"] a
  have "fix_memory_inputs slot_finder chat_handle =
        (if ''history'' \<in> set [''chat_history'', ''input''] then Inr chat_handle
         else case get_memory_key slot_finder chat_handle of
                None \<Rightarrow> Inr chat_handle
              | Some k \<Rightarrow> Inr (chat_handle\<lparr>memory := Some (\<lparr>memory_key = Some ''history''\<rparr>
                                                            \<lparr>memory_key := Some k\<rparr>)\<rparr>))"
    by blast
  then show ?thesis using c by simp
qed








section \<open>Properties of load_flow_from_json\<close>

text \<open>
  Claim C5 as stated fails: a document of the shape \<open>{nodes, edges}\<close>, without the
  \<open>data\<close> level, is not accepted. Line 158 subscripts the document with \<open>data\<close> and
  raises \<^verbatim>\<open>KeyError\<close>; the graph is never constructed.
\<close>

theorem load_flow_from_json_counterexample:
  "load_flow_from_json disk_loader quiet (ValueInput bare_document) JNull True
     = (Inl (Exn KeyError (quoted ''data'')), [])"
  by (simp add: load_flow_from_json_def read_flow_graph_def load_document_def bare_document_def)

lemma read_flow_graph_other:
  assumes "\<forall>s. x \<noteq> JStr s" and "\<forall>kvs. x \<noteq> JObj kvs"
  shows "read_flow_graph ld (ValueInput x)
     = (Inl (Exn TypeError ''Input must be either a file path (str) or a JSON object (dict)''), [])"
  using assms by (cases x) (simp_all add: read_flow_graph_def)

text \<open>
  Claim C5, amended. A source that is neither a string, a path nor a dict is rejected
  with a \<^verbatim>\<open>TypeError\<close> before any file is opened and before the graph is constructed. A
  string or a path is opened and parsed, and the loading goes on with the document read; a
  dict is the document itself. The graph description is what the document holds under
  \<open>data\<close>: a document without that key is rejected with \<^verbatim>\<open>KeyError\<close> before the graph
  is constructed, and from a document \<open>{data: {nodes, edges}}\<close>, without tweaks, the
  graph is constructed from these nodes and edges.
\<close>

theorem load_flow_from_json_sources:
  "((\<forall>s. x \<noteq> JStr s) \<and> (\<forall>kvs. x \<noteq> JObj kvs) \<longrightarrow>
      load_flow_from_json ld c (ValueInput x) tweaks build
        = (Inl (Exn TypeError ''Input must be either a file path (str) or a JSON object (dict)''), [])) \<and>
   (inp = PathInput p \<or> inp = ValueInput (JStr p) \<longrightarrow>
      load_flow_from_json ld c inp tweaks build =
        (case read_json ld p of
           Inl e \<Rightarrow> (Inl e, [Opened p])
         | Inr flow_graph \<Rightarrow>
             (fst (load_document ld c flow_graph tweaks build),
              Opened p # snd (load_document ld c flow_graph tweaks build)))) \<and>
   load_flow_from_json ld c (ValueInput (JObj doc)) tweaks build
     = load_document ld c (JObj doc) tweaks build \<and>
   (map_of doc ''data'' = None \<longrightarrow>
      load_document ld c (JObj doc) tweaks build = (Inl (Exn KeyError (quoted ''data'')), [])) \<and>
   (map_of doc ''data'' = Some (JObj d) \<and> map_of d ''nodes'' = Some nodes
      \<and> map_of d ''edges'' = Some edges \<longrightarrow>
      load_document ld c (JObj doc) JNull build =
        (case new_graph ld nodes edges of
           Inl e \<Rightarrow> (Inl e, [Constructed nodes edges])
         | Inr graph \<Rightarrow>
             (fst (finish_load ld c graph build),
              Constructed nodes edges # snd (finish_load ld c graph build))))"
proof -
  have 1: "load_flow_from_json ld c (ValueInput x) tweaks build
        = (Inl (Exn TypeError ''Input must be either a file path (str) or a JSON object (dict)''), [])"
    if "(\<forall>s. x \<noteq> JStr s) \<and> (\<forall>kvs. x \<noteq> JObj kvs)"
    using that by (simp add: load_flow_from_json_def read_flow_graph_other)
  have 2: "load_flow_from_json ld c inp tweaks build =
        (case read_json ld p of
           Inl e \<Rightarrow> (Inl e, [Opened p])
         | Inr flow_graph \<Rightarrow>
             (fst (load_document ld c flow_graph tweaks build),
              Opened p # snd (load_document ld c flow_graph tweaks build)))"
    if "inp = PathInput p \<or> inp = ValueInput (JStr p)"
    using that
    by (auto simp: load_flow_from_json_def read_flow_graph_def split: sum.splits prod.splits)
  have 3: "load_flow_from_json ld c (ValueInput (JObj doc)) tweaks build
     = load_document ld c (JObj doc) tweaks build"
    by (simp add: load_flow_from_json_def read_flow_graph_def split: prod.splits)
  have 4: "load_document ld c (JObj doc) tweaks build = (Inl (Exn KeyError (quoted ''data'')), [])"
    if "map_of doc ''data'' = None"
    using that by (simp add: load_document_def)
  have 5: "load_document ld c (JObj doc) JNull build =
        (case new_graph ld nodes edges of
           Inl e \<Rightarrow> (Inl e, [Constructed nodes edges])
         | Inr graph \<Rightarrow>
             (fst (finish_load ld c graph build),
              Constructed nodes edges # snd (finish_load ld c graph build)))"
    if "map_of doc ''data'' = Some (JObj d) \<and> map_of d ''nodes'' = Some nodes
      \<and> map_of d ''edges'' = Some edges"
    using that by (simp add: load_document_def split: sum.splits prod.splits)
  show ?thesis using 1 2 3 4 5 by blast
qed

theorem load_flow_from_json_sources_witness:
  "load_flow_from_json disk_loader quiet (ValueInput (JInt 5)) JNull True
     = (Inl (Exn TypeError ''Input must be either a file path (str) or a JSON object (dict)''), []) \<and>
   load_flow_from_json disk_loader quiet (PathInput ''flow.json'') JNull True
     = (Inr (LoadedObject plain_handle), [Opened ''flow.json'', Constructed (JArr []) (JArr []), Built]) \<and>
   load_flow_from_json disk_loader quiet (ValueInput wrapped_document) JNull False
     = (Inr (LoadedGraph (JArr [], JArr [])), [Constructed (JArr []) (JArr [])])"
proof -
  note t = load_flow_from_json_sources [where ld = disk_loader and c = quiet and tweaks = JNull]
  have a: "(\<forall>s. JInt 5 \<noteq> JStr s) \<and> (\<forall>kvs. JInt 5 \<noteq> JObj kvs)" by simp
  have 1: "load_flow_from_json disk_loader quiet (ValueInput (JInt 5)) JNull True
     = (Inl (Exn TypeError ''Input must be either a file path (str) or a JSON object (dict)''), [])"
    using t [where x = "JInt 5" and build = True] a by blast
  have 2: "load_flow_from_json disk_loader quiet (PathInput ''flow.json'') JNull True
     = (Inr (LoadedObject plain_handle), [Opened ''flow.json'', Constructed (JArr []) (JArr []), Built])"
    by (simp add: load_flow_from_json_def read_flow_graph_def load_document_def finish_load_def
        disk_loader_def wrapped_document_def plain_handle_def fix_memory_inputs_def)
  have 3: "load_flow_from_json disk_loader quiet (ValueInput wrapped_document) JNull False
     = (Inr (LoadedGraph (JArr [], JArr [])), [Constructed (JArr []) (JArr [])])"
    by (simp add: load_flow_from_json_def read_flow_graph_def load_document_def finish_load_def
        disk_loader_def wrapped_document_def)
  show ?thesis using 1 2 3 by simp
qed

section \<open>Properties of process_tweaks\<close>

lemma assignable_iff:
  "assignable items tpl =
     (\<forall>(p, v) \<in> set items. p \<noteq> [] \<and> truthy v \<longrightarrow> (\<forall>e. map_of tpl p = Some e \<longrightarrow> is_dict e))"
  by (auto simp: assignable_def list_all_iff split: option.splits)

lemma set_value_dict: "is_dict e \<Longrightarrow> set_value e v = Inr (with_value v e) \<and> is_dict (with_value v e)"
  by (cases e) simp_all

text \<open>
  The loop over the items of an assignable tweak dict does not raise and keeps the
  parameter names; each parameter ends as the item of its name says.
\<close>

lemma apply_tweaks_loop_result:
  assumes "distinct (map fst items)" and "assignable items tpl"
  shows "\<exists>tpl'. apply_tweaks_loop items tpl = Inr tpl' \<and> map fst tpl' = map fst tpl
           \<and> (\<forall>p. map_of tpl' p =
                 (case map_of items p of
                    None \<Rightarrow> map_of tpl p
                  | Some v \<Rightarrow> if p \<noteq> [] \<and> truthy v then map_option (with_value v) (map_of tpl p)
                              else map_of tpl p))"
  using assms
proof (induction items arbitrary: tpl)
  case Nil
  then show ?case by simp
next
  case (Cons item rest)
  obtain q w where item: "item = (q, w)" by (cases item)
  from Cons.prems(1) item have d: "distinct (map fst rest)" and q: "map_of rest q = None"
    and qr: "q \<notin> fst ` set rest"
    by (auto simp: map_of_eq_None_iff)
  from Cons.prems(2) have ar: "assignable rest tpl"
    by (simp add: assignable_def)
  show ?case
  proof (cases "q \<noteq> [] \<and> truthy w \<and> map_of tpl q \<noteq> None")
    case False
    from Cons.IH [OF d ar] obtain tpl' where
      r: "apply_tweaks_loop rest tpl = Inr tpl'" "map fst tpl' = map fst tpl"
         "\<forall>p. map_of tpl' p =
                 (case map_of rest p of
                    None \<Rightarrow> map_of tpl p
                  | Some v \<Rightarrow> if p \<noteq> [] \<and> truthy v then map_option (with_value v) (map_of tpl p)
                              else map_of tpl p)"
      by blast
    have "apply_tweaks_loop (item # rest) tpl = Inr tpl'"
      using False r(1) item by auto
    moreover have "\<forall>p. map_of tpl' p =
                 (case map_of (item # rest) p of
                    None \<Rightarrow> map_of tpl p
                  | Some v \<Rightarrow> if p \<noteq> [] \<and> truthy v then map_option (with_value v) (map_of tpl p)
                              else map_of tpl p)"
    proof
      fix p
      from r(3) have rp: "map_of tpl' p =
                 (case map_of rest p of
                    None \<Rightarrow> map_of tpl p
                  | Some v \<Rightarrow> if p \<noteq> [] \<and> truthy v then map_option (with_value v) (map_of tpl p)
                              else map_of tpl p)"
        by blast
      show "map_of tpl' p =
                 (case map_of (item # rest) p of
                    None \<Rightarrow> map_of tpl p
                  | Some v \<Rightarrow> if p \<noteq> [] \<and> truthy v then map_option (with_value v) (map_of tpl p)
                              else map_of tpl p)"
      proof (cases "p = q")
        case True
        have "map_of tpl' q = map_of tpl q"
          using rp True by (simp only: q option.case)
        moreover have "map_of (item # rest) q = Some w"
          using item by simp
        ultimately show ?thesis
          using True False by (cases "map_of tpl q") auto
      next
        case False
        then have "map_of (item # rest) p = map_of rest p"
          using item by simp
        then show ?thesis using rp by (simp only:)
      qed
    qed
    ultimately show ?thesis using r(2) by blast
  next
    case True
    then obtain e where e: "map_of tpl q = Some e" by auto
    have de: "is_dict e"
      using Cons.prems(2) True e item unfolding assignable_iff by auto
    let ?tpl1 = "AList.update q (with_value w e) tpl"
    have s: "set_value e w = Inr (with_value w e)"
      using set_value_dict [OF de] by auto
    have same: "map_of ?tpl1 p = map_of tpl p" if "p \<noteq> q" for p
      using that by (simp add: update_conv')
    have a1: "assignable rest ?tpl1"
      unfolding assignable_iff
    proof (intro ballI, clarify)
      fix p v e'
      assume pv: "(p, v) \<in> set rest" and eff: "p \<noteq> []" "truthy v"
        and m: "map_of ?tpl1 p = Some e'"
      from pv qr have "p \<noteq> q" by force
      then have "map_of tpl p = Some e'" using m same by simp
      with ar pv eff show "is_dict e'" unfolding assignable_iff by blast
    qed
    have k1: "map fst ?tpl1 = map fst tpl"
      using e by (auto simp: update_keys dest: map_of_SomeD intro: rev_image_eqI)
    from Cons.IH [OF d a1] obtain tpl' where
      r: "apply_tweaks_loop rest ?tpl1 = Inr tpl'" "map fst tpl' = map fst ?tpl1"
         "\<forall>p. map_of tpl' p =
                 (case map_of rest p of
                    None \<Rightarrow> map_of ?tpl1 p
                  | Some v \<Rightarrow> if p \<noteq> [] \<and> truthy v then map_option (with_value v) (map_of ?tpl1 p)
                              else map_of ?tpl1 p)"
      by blast
    have "apply_tweaks_loop (item # rest) tpl = Inr tpl'"
      using True r(1) item e s by simp
    moreover have "\<forall>p. map_of tpl' p =
                 (case map_of (item # rest) p of
                    None \<Rightarrow> map_of tpl p
                  | Some v \<Rightarrow> if p \<noteq> [] \<and> truthy v then map_option (with_value v) (map_of tpl p)
                              else map_of tpl p)"
    proof
      fix p
      show "map_of tpl' p =
                 (case map_of (item # rest) p of
                    None \<Rightarrow> map_of tpl p
                  | Some v \<Rightarrow> if p \<noteq> [] \<and> truthy v then map_option (with_value v) (map_of tpl p)
                              else map_of tpl p)"
      proof (cases "p = q")
        case True
        from r(3) have "map_of tpl' q =
                 (case map_of rest q of
                    None \<Rightarrow> map_of ?tpl1 q
                  | Some v \<Rightarrow> if q \<noteq> [] \<and> truthy v then map_option (with_value v) (map_of ?tpl1 q)
                              else map_of ?tpl1 q)"
          by blast
        then have "map_of tpl' q = map_of ?tpl1 q"
          by (simp only: q option.case)
        then have "map_of tpl' q = Some (with_value w e)"
          by (simp add: update_conv')
        moreover have "map_of (item # rest) q = Some w"
          using item by simp
        ultimately show ?thesis
          using True e \<open>q \<noteq> [] \<and> truthy w \<and> map_of tpl q \<noteq> None\<close> by simp
      next
        case False
        have m: "map_of ?tpl1 p = map_of tpl p"
          using False by (simp add: update_conv')
        have n: "map_of (item # rest) p = map_of rest p"
          using False item by simp
        from r(3) have "map_of tpl' p =
                 (case map_of rest p of
                    None \<Rightarrow> map_of ?tpl1 p
                  | Some v \<Rightarrow> if p \<noteq> [] \<and> truthy v then map_option (with_value v) (map_of ?tpl1 p)
                              else map_of ?tpl1 p)"
          by blast
        then show ?thesis by (simp only: m n)
      qed
    qed
    moreover have "map fst tpl' = map fst tpl" using r(2) k1 by simp
    ultimately show ?thesis by blast
  qed
qed

lemma tweaks_applied_refl: "tweaks_applied [] tpl tpl"
  by (simp add: tweaks_applied_def)

lemma tweaks_applied_loop:
  assumes "distinct (map fst items)" and "assignable items tpl"
  shows "\<exists>tpl'. apply_tweaks_loop items tpl = Inr tpl' \<and> tweaks_applied items tpl tpl'"
proof -
  from apply_tweaks_loop_result [OF assms] obtain tpl' where
    r: "apply_tweaks_loop items tpl = Inr tpl'" "map fst tpl' = map fst tpl"
    and c: "\<And>p. map_of tpl' p =
                 (case map_of items p of
                    None \<Rightarrow> map_of tpl p
                  | Some v \<Rightarrow> if p \<noteq> [] \<and> truthy v then map_option (with_value v) (map_of tpl p)
                              else map_of tpl p)"
    by blast
  have a: "\<exists>entry. map_of tpl p = Some (JObj entry)
                 \<and> map_of tpl' p = Some (JObj (AList.update ''value'' v entry))
                 \<and> param_value tpl' p = Some v"
    if "(p, v) \<in> set items" "p \<noteq> []" "truthy v" "p \<in> set (map fst tpl)" for p v
  proof -
    have m: "map_of items p = Some v" using that(1) assms(1) by simp
    from that(4) obtain e where e: "map_of tpl p = Some e"
      by (cases "map_of tpl p") (auto simp: map_of_eq_None_iff)
    have "is_dict e"
      using assms(2) that(1-3) e unfolding assignable_iff by blast
    then obtain kvs where k: "e = JObj kvs" by (cases e) simp_all
    have "map_of tpl' p = Some (JObj (AList.update ''value'' v kvs))"
      using c [of p] m e k that(2,3) by simp
    then show ?thesis using e k by (simp add: param_value_def update_conv')
  qed
  have b: "map_of tpl' p = map_of tpl p"
    if "\<forall>v. (p, v) \<in> set items \<longrightarrow> p = [] \<or> \<not> truthy v" for p
  proof (cases "map_of items p")
    case None
    then show ?thesis using c [of p] by simp
  next
    case (Some v)
    then have "(p, v) \<in> set items" by (rule map_of_SomeD)
    with that have "p = [] \<or> \<not> truthy v" by blast
    then show ?thesis using c [of p] Some by auto
  qed
  have "tweaks_applied items tpl tpl'"
    unfolding tweaks_applied_def using r(2) a b by blast
  then show ?thesis using r(1) by blast
qed

lemma node_template_store:
  "node_template (JObj n) = Some tpl \<Longrightarrow> node_template (JObj (store_template n tpl')) = Some tpl'"
  by (auto simp: node_template_def store_template_def update_conv'
      split: option.splits json.splits)

lemma apply_tweaks_templated:
  assumes "node_template (JObj n) = Some tpl" and "assignable items tpl"
    and "distinct (map fst items)"
  shows "\<exists>tpl'. apply_tweaks n (JObj items) = Inr (store_template n tpl')
           \<and> tweaks_applied items tpl tpl'"
proof -
  from assms(1) obtain d nd where
    p: "map_of n ''data'' = Some (JObj d)" "map_of d ''node'' = Some (JObj nd)"
       "map_of nd ''template'' = Some (JObj tpl)"
    by (auto simp: node_template_def split: option.splits json.splits)
  from tweaks_applied_loop [OF assms(3,2)] obtain tpl' where
    r: "apply_tweaks_loop items tpl = Inr tpl'" "tweaks_applied items tpl tpl'" by blast
  have "apply_tweaks n (JObj items) = Inr (store_template n tpl')"
    using p r(1) by (simp add: apply_tweaks_def)
  then show ?thesis using r(2) by blast
qed

lemma apply_tweaks_untemplated:
  assumes "template_reachable n" and "node_template (JObj n) = None"
  shows "apply_tweaks n node_tweaks = Inr n"
  using assms
  by (auto simp: apply_tweaks_def template_reachable_def node_template_def
      split: option.splits json.splits)

lemma tweak_map_lookup:
  assumes "tweak_map t" and "map_of t nid = Some nt"
  shows "\<exists>items. nt = JObj items \<and> distinct (map fst items)"
proof -
  from assms(2) have "nt \<in> set (map snd t)"
    by (auto dest!: map_of_SomeD intro: rev_image_eqI)
  with assms(1) have "case nt of JObj items \<Rightarrow> distinct (map fst items) | _ \<Rightarrow> False"
    unfolding tweak_map_def list_all_iff by blast
  then show ?thesis by (cases nt) simp_all
qed

lemma tweak_node_result:
  assumes "tweakable t node" and "tweak_map t"
  shows "\<exists>node'. tweak_node t node = Inr node' \<and>
           (\<forall>n nid items tpl. node = JObj n \<and> map_of n ''id'' = Some (JStr nid)
               \<and> map_of t nid = Some (JObj items) \<and> node_template node = Some tpl
               \<longrightarrow> (\<exists>tpl'. node_template node' = Some tpl' \<and> tweaks_applied items tpl tpl'))"
proof (cases "\<exists>n nid nt. node = JObj n \<and> map_of n ''id'' = Some (JStr nid)
                \<and> map_of t nid = Some nt \<and> truthy nt")
  case False
  then have "tweak_node t node = Inr node"
    by (auto simp: tweak_node_def Let_def split: json.splits option.splits)
  moreover have "\<exists>tpl'. node_template node = Some tpl' \<and> tweaks_applied items tpl tpl'"
    if "node = JObj n" "map_of n ''id'' = Some (JStr nid)" "map_of t nid = Some (JObj items)"
       "node_template node = Some tpl" for n nid items tpl
  proof -
    from False that have "\<not> truthy (JObj items)" by blast
    then have "items = []" by simp
    then show ?thesis using that(4) tweaks_applied_refl by blast
  qed
  ultimately show ?thesis by blast
next
  case True
  then obtain n nid nt where
    n: "node = JObj n" "map_of n ''id'' = Some (JStr nid)" "map_of t nid = Some nt" "truthy nt"
    by blast
  from tweak_map_lookup [OF assms(2) n(3)] obtain items where
    i: "nt = JObj items" "distinct (map fst items)" by blast
  from n(4) i(1) have ne: "items \<noteq> []" by simp
  have w: "template_reachable n \<and>
           (case node_template node of None \<Rightarrow> True | Some tpl \<Rightarrow> assignable items tpl)"
    using assms(1) n(1,2,3) i(1) ne by (simp add: tweakable_def)
  have step: "tweak_node t node =
      (case apply_tweaks n (JObj items) of Inl e \<Rightarrow> Inl e | Inr n' \<Rightarrow> Inr (JObj n'))"
    using n i by (simp add: tweak_node_def Let_def)
  show ?thesis
  proof (cases "node_template (JObj n)")
    case None
    then have "tweak_node t node = Inr node"
      using step apply_tweaks_untemplated [of n] w n(1) by simp
    then show ?thesis using None n(1) by auto
  next
    case (Some tpl)
    then have "assignable items tpl" using w n(1) by simp
    from apply_tweaks_templated [OF Some this i(2)] obtain tpl' where
      r: "apply_tweaks n (JObj items) = Inr (store_template n tpl')"
         "tweaks_applied items tpl tpl'" by blast
    have "tweak_node t node = Inr (JObj (store_template n tpl'))"
      using step r(1) by simp
    moreover have "node_template (JObj (store_template n tpl')) = Some tpl'"
      using node_template_store [OF Some] .
    ultimately show ?thesis using n i(1) Some r(2) by auto
  qed
qed

lemma tweak_nodes_result:
  assumes "list_all (tweakable t) nodes" and "tweak_map t"
  shows "\<exists>nodes'. tweak_nodes t nodes = Inr nodes' \<and> length nodes' = length nodes
           \<and> (\<forall>i<length nodes. tweak_node t (nodes ! i) = Inr (nodes' ! i))"
  using assms(1)
proof (induction nodes)
  case Nil
  then show ?case by simp
next
  case (Cons node rest)
  then have w: "tweakable t node" and wr: "list_all (tweakable t) rest" by simp_all
  from tweak_node_result [OF w assms(2)] obtain node' where
    a: "tweak_node t node = Inr node'" by blast
  from Cons.IH [OF wr] obtain rest' where
    b: "tweak_nodes t rest = Inr rest'" "length rest' = length rest"
       "\<forall>i<length rest. tweak_node t (rest ! i) = Inr (rest' ! i)" by blast
  have "tweak_nodes t (node # rest) = Inr (node' # rest')"
    using a b(1) by simp
  moreover have "\<forall>i<length (node # rest). tweak_node t ((node # rest) ! i) = Inr ((node' # rest') ! i)"
    using a b(3) by (auto simp: nth_Cons split: nat.splits)
  ultimately show ?case using b(2) by (intro exI [of _ "node' # rest'"]) simp
qed

lemma validate_input_stored:
  assumes "validate_input (JObj g) (JObj t) = Inr (place, nodes)"
    and "length nodes' = length nodes"
  shows "validate_input (JObj (store_nodes place nodes' g)) (JObj t) = Inr (place, nodes')"
proof (cases place)
  case UnderNodes
  with assms(1) show ?thesis
    by (auto simp: validate_input_def store_nodes_def update_conv' Let_def
        split: sum.splits option.splits json.splits if_splits)
next
  case UnderData
  with assms(1) have v: "validate_input (JObj g) (JObj t) = Inr (UnderData, nodes)" by simp
  obtain d where
    d: "map_of g ''data'' = Some (JObj d)" "map_of d ''nodes'' = Some (JArr nodes)" "nodes \<noteq> []"
  proof (cases "map_of g ''data''")
    case None
    with v show ?thesis
      by (simp add: validate_input_def Let_def split: option.splits json.splits)
  next
    case (Some x)
    show ?thesis
    proof (cases x)
      case (JObj d)
      with v Some that show ?thesis
        by (cases "map_of d ''nodes''")
          (auto simp: validate_input_def Let_def split: option.splits json.splits if_splits)
    qed (use v Some in \<open>simp_all add: validate_input_def\<close>)
  qed
  then have "nodes' \<noteq> []" using assms(2) by auto
  then show ?thesis
    using UnderData d by (simp add: validate_input_def store_nodes_def update_conv')
qed

text \<open>
  Claim C1 as stated fails at a falsy value: the tweak that sets the temperature of node
  \<open>llm-1\<close> to \<open>0\<close> names an existing node and an existing parameter, and after the call
  the parameter still has its old value \<open>0.9\<close>.
\<close>

theorem process_tweaks_counterexample:
  "process_tweaks (flow_with_temperature (JFloat 0.9)) (temperature_tweak (JInt 0))
     = Inr (flow_with_temperature (JFloat 0.9)) \<and>
   JFloat 0.9 \<noteq> JInt 0"
  by (simp add: process_tweaks_def validate_input_def flow_with_temperature_def
      temperature_tweak_def tweak_node_def apply_tweaks_def store_template_def
      store_nodes_def Let_def)

text \<open>
  Claim C1, amended. Let \<^verbatim>\<open>validate_input\<close> find the node list of the description, let
  the tweaks be a tweak map and every node be tweakable. Then \<^verbatim>\<open>process_tweaks\<close> does
  not raise, and the description it returns holds, at the same place, a node list of the
  same length in which, for every node that is a dict with a string id for which the tweak
  map has an entry, and that has a template: the template has the same parameter names in
  the same order (a parameter absent from it stays absent); every parameter of the
  template that the entry names with a non-empty name and a truthy value is the
  descriptor it was with that value in its \<open>value\<close> field and every other field
  unchanged; and every parameter that the entry does not name so is unchanged.
\<close>

theorem process_tweaks_applies:
  assumes "validate_input (JObj g) (JObj t) = Inr (place, nodes)"
    and "list_all (tweakable t) nodes"
    and "tweak_map t"
  shows "\<exists>nodes'. process_tweaks (JObj g) (JObj t) = Inr (JObj (store_nodes place nodes' g))
           \<and> validate_input (JObj (store_nodes place nodes' g)) (JObj t) = Inr (place, nodes')
           \<and> length nodes' = length nodes
           \<and> (\<forall>i n nid items tpl.
                 i < length nodes \<and> nodes ! i = JObj n \<and> map_of n ''id'' = Some (JStr nid)
                 \<and> map_of t nid = Some (JObj items) \<and> node_template (nodes ! i) = Some tpl
                 \<longrightarrow> (\<exists>tpl'. node_template (nodes' ! i) = Some tpl'
                        \<and> tweaks_applied items tpl tpl'))"
proof -
  from tweak_nodes_result [OF assms(2,3)] obtain nodes' where
    r: "tweak_nodes t nodes = Inr nodes'" "length nodes' = length nodes"
       "\<forall>i<length nodes. tweak_node t (nodes ! i) = Inr (nodes' ! i)" by blast
  have p: "process_tweaks (JObj g) (JObj t) = Inr (JObj (store_nodes place nodes' g))"
    using assms(1) r(1) by (simp add: process_tweaks_def)
  have v: "validate_input (JObj (store_nodes place nodes' g)) (JObj t) = Inr (place, nodes')"
    using validate_input_stored [OF assms(1) r(2)] .
  have a: "\<exists>tpl'. node_template (nodes' ! i) = Some tpl' \<and> tweaks_applied items tpl tpl'"
    if "i < length nodes" "nodes ! i = JObj n" "map_of n ''id'' = Some (JStr nid)"
       "map_of t nid = Some (JObj items)" "node_template (nodes ! i) = Some tpl"
    for i n nid items tpl
  proof -
    have w: "tweakable t (nodes ! i)"
      using assms(2) that(1) by (simp add: list_all_length)
    from tweak_node_result [OF w assms(3)] obtain node' where
      n: "tweak_node t (nodes ! i) = Inr node'"
         "\<forall>n nid items tpl. nodes ! i = JObj n \<and> map_of n ''id'' = Some (JStr nid)
               \<and> map_of t nid = Some (JObj items) \<and> node_template (nodes ! i) = Some tpl
               \<longrightarrow> (\<exists>tpl'. node_template node' = Some tpl' \<and> tweaks_applied items tpl tpl')"
      by blast
    have "node' = nodes' ! i" using n(1) r(3) that(1) by simp
    then show ?thesis using n(2) that(2-5) by blast
  qed
  show ?thesis
    using p v r(2) a by blast
qed

theorem process_tweaks_applies_witness:
  "\<exists>nodes' tpl'.
     process_tweaks (flow_with_temperature (JFloat 0)) (temperature_tweak (JFloat 0.9))
       = Inr (JObj (AList.update ''nodes'' (JArr nodes') [(''nodes'', JNull), (''edges'', JArr [])]))
     \<and> node_template (nodes' ! 0) = Some tpl'
     \<and> map_of tpl' ''_type'' = Some (JStr ''OpenAI'')
     \<and> map_of tpl' ''temperature''
         = Some (JObj [(''type'', JStr ''float''), (''value'', JFloat 0.9)])"
proof -
  let ?tpl = "[(''_type'', JStr ''OpenAI''),
               (''temperature'', JObj [(''type'', JStr ''float''), (''value'', JFloat 0)])]"
  let ?node = "JObj [(''id'', JStr ''llm-1''),
                     (''data'', JObj [(''node'', JObj [(''template'', JObj ?tpl)])])]"
  let ?g = "[(''nodes'', JArr [?node]), (''edges'', JArr [])]"
  let ?t = "[(''llm-1'', JObj [(''temperature'', JFloat 0.9)])]"
  have v: "validate_input (JObj ?g) (JObj ?t) = Inr (UnderNodes, [?node])"
    by (simp add: validate_input_def)
  have nt: "node_template ?node = Some ?tpl"
    by (simp add: node_template_def)
  have w: "list_all (tweakable ?t) [?node]"
    by (simp add: tweakable_def template_reachable_def nt assignable_def)
  have m: "tweak_map ?t"
    by (simp add: tweak_map_def)
  from process_tweaks_applies [OF v w m] obtain nodes' where
    r: "process_tweaks (JObj ?g) (JObj ?t) = Inr (JObj (store_nodes UnderNodes nodes' ?g))"
       "\<forall>i n nid items tpl.
                 i < length [?node] \<and> [?node] ! i = JObj n \<and> map_of n ''id'' = Some (JStr nid)
                 \<and> map_of ?t nid = Some (JObj items) \<and> node_template ([?node] ! i) = Some tpl
                 \<longrightarrow> (\<exists>tpl'. node_template (nodes' ! i) = Some tpl'
                        \<and> tweaks_applied items tpl tpl')"
    by blast
  from r(2) [rule_format, of 0 _ "''llm-1''" "[(''temperature'', JFloat 0.9)]" ?tpl] nt
  obtain tpl' where
    t: "node_template (nodes' ! 0) = Some tpl'"
       "tweaks_applied [(''temperature'', JFloat 0.9)] ?tpl tpl'"
    by auto
  from t(2) have "map_of tpl' ''temperature''
         = Some (JObj [(''type'', JStr ''float''), (''value'', JFloat 0.9)])"
    by (simp add: tweaks_applied_def)
  moreover from t(2) have "map_of tpl' ''_type'' = Some (JStr ''OpenAI'')"
    by (simp add: tweaks_applied_def)
  ultimately show ?thesis
    using r(1) t(1)
    by (auto simp: flow_with_temperature_def temperature_tweak_def store_nodes_def)
qed

text \<open>Scenario A of the specification, computed: the tweak \<open>0.9\<close> replaces the value \<open>0.0\<close>.\<close>

lemma process_tweaks_scenario_A:
  "process_tweaks (flow_with_temperature (JFloat 0)) (temperature_tweak (JFloat 0.9))
     = Inr (flow_with_temperature (JFloat 0.9))"
  by (simp add: process_tweaks_def validate_input_def flow_with_temperature_def
      temperature_tweak_def tweak_node_def apply_tweaks_def store_template_def
      store_nodes_def Let_def)

text \<open>
  The conditions on the nodes are needed: with a node that is not tweakable the call
  raises, the \<^verbatim>\<open>AttributeError\<close> of a \<^verbatim>\<open>get\<close> on something that is not a dict or the
  \<^verbatim>\<open>TypeError\<close> of the assignment into an entry that is not one.
\<close>

lemma py_get_raises: "\<not> is_dict x \<Longrightarrow> \<exists>e. py_get x key dflt = Inl e"
  by (cases x) simp_all

lemma set_value_raises: "\<not> is_dict e \<Longrightarrow> \<exists>x. set_value e v = Inl x"
  by (cases e) simp_all

lemma apply_tweaks_loop_raises:
  assumes "distinct (map fst items)" and "\<not> assignable items tpl"
  shows "\<exists>x. apply_tweaks_loop items tpl = Inl x"
  using assms
proof (induction items arbitrary: tpl)
  case Nil
  then show ?case by (simp add: assignable_def)
next
  case (Cons item rest)
  obtain q w where item: "item = (q, w)" by (cases item)
  from Cons.prems(1) item have d: "distinct (map fst rest)" and qr: "q \<notin> fst ` set rest"
    by auto
  show ?case
  proof (cases "q \<noteq> [] \<and> truthy w \<and> map_of tpl q \<noteq> None")
    case False
    then have "\<not> assignable rest tpl"
      using Cons.prems(2) item by (auto simp: assignable_def)
    from Cons.IH [OF d this] show ?thesis using False item by auto
  next
    case True
    then obtain e where e: "map_of tpl q = Some e" by auto
    show ?thesis
    proof (cases "is_dict e")
      case False
      from set_value_raises [OF False] obtain x where "set_value e w = Inl x" by blast
      then show ?thesis using True e item by simp
    next
      case dict: True
      let ?tpl1 = "AList.update q (with_value w e) tpl"
      have s: "set_value e w = Inr (with_value w e)"
        using set_value_dict [OF dict] by auto
      have "\<not> assignable rest tpl"
        using Cons.prems(2) item e dict by (auto simp: assignable_def)
      then obtain p v e' where
        o: "(p, v) \<in> set rest" "p \<noteq> []" "truthy v" "map_of tpl p = Some e'" "\<not> is_dict e'"
        unfolding assignable_iff by blast
      from o(1) qr have "p \<noteq> q" by force
      then have "map_of ?tpl1 p = Some e'" using o(4) by (simp add: update_conv')
      with o have "\<not> assignable rest ?tpl1" unfolding assignable_iff by blast
      from Cons.IH [OF d this] show ?thesis using True e s item by simp
    qed
  qed
qed

lemma tweak_node_raises:
  assumes "tweak_map t" and "\<not> tweakable t node"
  shows "\<exists>x. tweak_node t node = Inl x"
proof -
  from assms(2) obtain n nid items where
    n: "node = JObj n" "map_of n ''id'' = Some (JStr nid)" "map_of t nid = Some (JObj items)"
       "items \<noteq> []"
    and bad: "\<not> template_reachable n \<or> (\<exists>tpl. node_template node = Some tpl \<and> \<not> assignable items tpl)"
    by (auto simp: tweakable_def split: json.splits option.splits)
  from tweak_map_lookup [OF assms(1) n(3)] have di: "distinct (map fst items)" by simp
  have step: "tweak_node t node =
      (case apply_tweaks n (JObj items) of Inl e \<Rightarrow> Inl e | Inr n' \<Rightarrow> Inr (JObj n'))"
    using n by (simp add: tweak_node_def Let_def)
  from bad have "\<exists>x. apply_tweaks n (JObj items) = Inl x"
  proof
    assume nr: "\<not> template_reachable n"
    show ?thesis
    proof (cases "map_of n ''data''")
      case None
      then show ?thesis using nr by (simp add: template_reachable_def)
    next
      case (Some x)
      show ?thesis
      proof (cases "is_dict x")
        case False
        from py_get_raises [OF False] obtain e where "py_get x ''node'' (JObj []) = Inl e" by blast
        then show ?thesis using Some by (simp add: apply_tweaks_def)
      next
        case True
        then obtain d where d: "x = JObj d" by (cases x) simp_all
        show ?thesis
        proof (cases "map_of d ''node''")
          case None
          then show ?thesis using nr Some d by (simp add: template_reachable_def)
        next
          case (Some y)
          have "\<not> is_dict y"
            using nr \<open>map_of n ''data'' = Some x\<close> d Some
            by (cases y) (simp_all add: template_reachable_def)
          from py_get_raises [OF this] obtain e where "py_get y ''template'' JNull = Inl e"
            by blast
          then show ?thesis
            using \<open>map_of n ''data'' = Some x\<close> d Some by (simp add: apply_tweaks_def)
        qed
      qed
    qed
  next
    assume "\<exists>tpl. node_template node = Some tpl \<and> \<not> assignable items tpl"
    then obtain tpl where t: "node_template (JObj n) = Some tpl" "\<not> assignable items tpl"
      using n(1) by auto
    from t(1) obtain d nd where
      p: "map_of n ''data'' = Some (JObj d)" "map_of d ''node'' = Some (JObj nd)"
         "map_of nd ''template'' = Some (JObj tpl)"
      by (auto simp: node_template_def split: option.splits json.splits)
    from apply_tweaks_loop_raises [OF di t(2)] obtain x where
      "apply_tweaks_loop items tpl = Inl x" by blast
    then show ?thesis using p by (simp add: apply_tweaks_def)
  qed
  then show ?thesis using step by auto
qed

lemma tweak_nodes_raises:
  assumes "tweak_map t" and "\<not> list_all (tweakable t) nodes"
  shows "\<exists>x. tweak_nodes t nodes = Inl x"
  using assms(2)
proof (induction nodes)
  case Nil
  then show ?case by simp
next
  case (Cons node rest)
  show ?case
  proof (cases "tweak_node t node")
    case (Inl x)
    then show ?thesis by simp
  next
    case (Inr node')
    then have "tweakable t node"
      using tweak_node_raises [OF assms(1)] by force
    then have "\<not> list_all (tweakable t) rest" using Cons.prems by simp
    from Cons.IH [OF this] show ?thesis using Inr by auto
  qed
qed

lemma process_tweaks_raises:
  assumes "validate_input (JObj g) (JObj t) = Inr (place, nodes)"
    and "tweak_map t" and "\<not> list_all (tweakable t) nodes"
  shows "\<exists>x. process_tweaks (JObj g) (JObj t) = Inl x"
  using assms(1) tweak_nodes_raises [OF assms(2,3)]
  by (auto simp: process_tweaks_def)

text \<open>
  Claim C9, at the inputs where the code does not do what the claim says. A description
  whose \<open>data.nodes\<close> is the empty list is rejected, with the message that asks for what
  it has, while the same empty list directly under \<open>nodes\<close> is accepted; an empty
  \<open>data.nodes\<close> is passed over for the list under \<open>nodes\<close>; and a \<open>data\<close> entry that is
  not a dict raises an \<^verbatim>\<open>AttributeError\<close>, not the \<^verbatim>\<open>ValueError\<close> of the validation.
\<close>

theorem validate_input_empty_data_nodes:
  "validate_input (JObj [(''data'', JObj [(''nodes'', JArr []), (''edges'', JArr [])])]) (JObj [])
     = Inl (Exn ValueError (''graph_data should contain a list of nodes under '' @ quoted ''data''
                             @ '' key or directly under '' @ quoted ''nodes'' @ '' key'')) \<and>
   validate_input (JObj [(''nodes'', JArr []), (''edges'', JArr [])]) (JObj [])
     = Inr (UnderNodes, []) \<and>
   validate_input (JObj [(''data'', JObj [(''nodes'', JArr [])]), (''nodes'', JArr [JStr ''n''])])
       (JObj [])
     = Inr (UnderNodes, [JStr ''n'']) \<and>
   validate_input (JObj [(''data'', JInt 5), (''nodes'', JArr [])]) (JObj [])
     = Inl (no_attribute ''int'' ''get'')"
  by (simp add: validate_input_def)

text \<open>
  What does hold of \<^verbatim>\<open>validate_input\<close>: arguments that are not both dicts are rejected
  with a \<^verbatim>\<open>ValueError\<close>, and a non-empty list under \<open>data.nodes\<close> is the node list.
\<close>

lemma validate_input_not_dicts:
  "\<not> (is_dict graph_data \<and> is_dict tweaks) \<Longrightarrow>
     validate_input graph_data tweaks
       = Inl (Exn ValueError ''graph_data and tweaks should be dictionaries'')"
  by (cases graph_data; cases tweaks) (simp_all add: validate_input_def)

lemma validate_input_data_nodes:
  "map_of g ''data'' = Some (JObj d) \<Longrightarrow> map_of d ''nodes'' = Some (JArr ns) \<Longrightarrow> ns \<noteq> [] \<Longrightarrow>
     validate_input (JObj g) (JObj t) = Inr (UnderData, ns)"
  by (simp add: validate_input_def)

end
